theory Spec2Isabelle
  imports Complex_Main "HOL-Library.Sublist"
begin

section \<open>JavaScript strings and arrays\<close>

text \<open>
  Strings of \<^verbatim>\<open>static/dashboard.js\<close> are modelled as lists of ASCII characters. The four
  built-in string methods the dashboard relies on are written out as executable functions:
  \<^verbatim>\<open>toLowerCase\<close>, \<^verbatim>\<open>includes\<close>, \<^verbatim>\<open>endsWith\<close> and \<^verbatim>\<open>trim\<close>, and
  \<^verbatim>\<open>Number.prototype.toString\<close> for the non-negative integers used as analysis ids.
\<close>

definition toLowerCase_char :: "char \<Rightarrow> char" where
  "toLowerCase_char c =
     (if 65 \<le> (of_char c :: nat) \<and> (of_char c :: nat) \<le> 90
      then char_of ((of_char c :: nat) + 32) else c)"

definition toLowerCase :: "string \<Rightarrow> string" where
  "toLowerCase s = map toLowerCase_char s"

text \<open>\<^verbatim>\<open>s.includes(t)\<close>: \<open>t\<close> occurs in \<open>s\<close> at some position.\<close>

fun includes_str :: "string \<Rightarrow> string \<Rightarrow> bool" where
  "includes_str [] t = (t = [])"
| "includes_str (c # cs) t = (take (length t) (c # cs) = t \<or> includes_str cs t)"

text \<open>\<^verbatim>\<open>s.endsWith(t)\<close>: the last \<open>length t\<close> characters of \<open>s\<close> are \<open>t\<close>.\<close>

definition endsWith :: "string \<Rightarrow> string \<Rightarrow> bool" where
  "endsWith s t = (length t \<le> length s \<and> drop (length s - length t) s = t)"

text \<open>White space and line terminators of the ASCII range, as \<^verbatim>\<open>trim\<close> strips them.\<close>

definition isWhiteSpace :: "char \<Rightarrow> bool" where
  "isWhiteSpace c =
     ((9 \<le> (of_char c :: nat) \<and> (of_char c :: nat) \<le> 13) \<or> (of_char c :: nat) = 32)"

definition trim :: "string \<Rightarrow> string" where
  "trim s = rev (dropWhile isWhiteSpace (rev (dropWhile isWhiteSpace s)))"

definition digit_char :: "nat \<Rightarrow> char" where
  "digit_char d = char_of (48 + d)"

text \<open>Decimal rendering of a non-negative integer (\<^verbatim>\<open>n.toString()\<close>, \<^verbatim>\<open>`${n}`\<close>).\<close>

fun toString :: "nat \<Rightarrow> string" where
  "toString n = (if n < 10 then [digit_char n] else toString (n div 10) @ [digit_char (n mod 10)])"

declare toString.simps [simp del]

text \<open>
  \<^verbatim>\<open>xs.slice(start, end)\<close>: a negative index counts from the end of the array, and both
  indices are clipped to the array.
\<close>

definition slice_index :: "nat \<Rightarrow> int \<Rightarrow> nat" where
  "slice_index n i = (if i < 0 then nat (max (int n + i) 0) else min (nat i) n)"

definition slice :: "'a list \<Rightarrow> int \<Rightarrow> int \<Rightarrow> 'a list" where
  "slice xs start end' =
     (let lo = slice_index (length xs) start; hi = slice_index (length xs) end'
      in take (hi - lo) (drop lo xs))"


section \<open>Notifications\<close>

text \<open>
  \<^verbatim>\<open>showNotification(message, type = 'info', duration = 3000)\<close> appends a banner to the
  document. The model keeps the banners shown so far as a log of
  (message, type, duration) triples; every component state extends this record.
\<close>

type_synonym notification = "string \<times> string \<times> nat"

record notifier =
  notifications :: "notification list"

definition showNotification ::
  "string \<Rightarrow> string \<Rightarrow> nat \<Rightarrow> 'a notifier_scheme \<Rightarrow> 'a notifier_scheme" where
  "showNotification message type' duration s =
     s\<lparr>notifications := notifications s @ [(message, type', duration)]\<rparr>"


section \<open>Analysis table: search and pagination\<close>

text \<open>
  An analysis record as the table uses it: the numeric \<^verbatim>\<open>id\<close> (the play buttons match it
  with \<^verbatim>\<open>\d+\<close>) and the \<^verbatim>\<open>filename\<close>, which may be absent.
\<close>

record analysis =
  id_analysis :: nat
  filename :: "string option"

text \<open>
  The module-level variables \<^verbatim>\<open>allAnalyses\<close>, \<^verbatim>\<open>filteredAnalyses\<close>, \<^verbatim>\<open>currentPage\<close>
  and \<^verbatim>\<open>isShowingAll\<close>, together with what the table functions write to the document:
  the rows handed to each call of \<^verbatim>\<open>displayAnalyses\<close> (a log, newest last), the pagination
  bar, the text of the count label and the visibility of the search-clear button. The
  elements of the table are taken to exist; the functions write none of the four variables
  differently when one is missing.
\<close>

record list_view = notifier +
  allAnalyses :: "analysis list"
  filteredAnalyses :: "analysis list"
  currentPage :: int
  isShowingAll :: bool
  rendered :: "analysis list list"
  pagination_shown :: bool
  page_info :: "int \<times> int"
  prev_disabled :: bool
  next_disabled :: bool
  analysis_count :: string
  search_clear_shown :: bool

definition itemsPerPage :: nat where
  "itemsPerPage = 10"

text \<open>\<^verbatim>\<open>Math.ceil(totalItems / itemsPerPage)\<close>\<close>

definition totalPages :: "nat \<Rightarrow> int" where
  "totalPages totalItems = \<lceil>real totalItems / real itemsPerPage\<rceil>"

definition displayAnalyses :: "analysis list \<Rightarrow> list_view \<Rightarrow> list_view" where
  "displayAnalyses analyses s = s\<lparr>rendered := rendered s @ [analyses]\<rparr>"

definition updatePagination :: "nat \<Rightarrow> list_view \<Rightarrow> list_view" where
  "updatePagination totalItems s =
     s\<lparr>pagination_shown := (totalPages totalItems > 1),
       page_info := (currentPage s, totalPages totalItems),
       prev_disabled := (currentPage s \<le> 1),
       next_disabled := (currentPage s \<ge> totalPages totalItems)\<rparr>"

definition displayAnalysesWithPagination :: "analysis list \<Rightarrow> list_view \<Rightarrow> list_view" where
  "displayAnalysesWithPagination analyses s =
     (let startIndex = (currentPage s - 1) * int itemsPerPage;
          endIndex = startIndex + int itemsPerPage;
          pageAnalyses = slice analyses startIndex endIndex
      in updatePagination (length analyses) (displayAnalyses pageAnalyses s))"

definition updateAnalysisTable :: "analysis list \<Rightarrow> list_view \<Rightarrow> list_view" where
  "updateAnalysisTable analyses s =
     (let s1 = s\<lparr>allAnalyses := analyses, filteredAnalyses := analyses, currentPage := 1\<rparr>;
          s2 = s1\<lparr>analysis_count := toString (length analyses) @ '' analyses''\<rparr>
      in if \<not> isShowingAll s2 then displayAnalyses (slice analyses 0 5) s2
         else displayAnalysesWithPagination analyses s2)"

text \<open>The double-quote character of the search feedback messages.\<close>

definition dquote :: string where
  "dquote = [CHR 0x22]"

text \<open>The predicate of the \<^verbatim>\<open>filter\<close> callback in \<^verbatim>\<open>performSearch\<close>.\<close>

definition search_match :: "string \<Rightarrow> analysis \<Rightarrow> bool" where
  "search_match searchTerm a =
     (let filename' = (case filename a of None \<Rightarrow> '''' | Some f \<Rightarrow> toLowerCase f);
          searchLower = toLowerCase searchTerm
      in includes_str filename' searchLower \<or> includes_str (toString (id_analysis a)) searchLower)"

definition performSearch :: "string \<Rightarrow> list_view \<Rightarrow> list_view" where
  "performSearch searchTerm s =
     (let s1 = s\<lparr>search_clear_shown := (searchTerm \<noteq> '''')\<rparr>;
          s2 = (if trim searchTerm = ''''
                then s1\<lparr>filteredAnalyses := allAnalyses s1\<rparr>
                else s1\<lparr>filteredAnalyses := filter (search_match searchTerm) (allAnalyses s1)\<rparr>);
          s3 = s2\<lparr>currentPage := 1\<rparr>;
          s4 = (if isShowingAll s3 then displayAnalysesWithPagination (filteredAnalyses s3) s3
                else displayAnalyses (slice (filteredAnalyses s3) 0 5) s3);
          s5 = (if trim searchTerm \<noteq> ''''
                then s4\<lparr>analysis_count := toString (length (filteredAnalyses s4)) @ '' of ''
                           @ toString (length (allAnalyses s4)) @ '' analyses''\<rparr>
                else s4\<lparr>analysis_count := toString (length (allAnalyses s4)) @ '' analyses''\<rparr>)
      in if trim searchTerm \<noteq> '''' \<and> length (filteredAnalyses s5) = 0
         then showNotification (''No analyses found matching '' @ dquote @ searchTerm @ dquote)
                ''warning'' 3000 s5
         else if trim searchTerm \<noteq> '''' \<and> length (filteredAnalyses s5) > 0
         then showNotification (''Found '' @ toString (length (filteredAnalyses s5))
                @ '' analyses matching '' @ dquote @ searchTerm @ dquote) ''success'' 2000 s5
         else s5)"

definition showAllAnalyses :: "list_view \<Rightarrow> list_view" where
  "showAllAnalyses s =
     (let s1 = s\<lparr>isShowingAll := True, currentPage := 1\<rparr>;
          s2 = displayAnalysesWithPagination (filteredAnalyses s1) s1
      in showNotification ''Showing all analyses with pagination'' ''info'' 2000 s2)"

definition showRecentAnalyses :: "list_view \<Rightarrow> list_view" where
  "showRecentAnalyses s =
     (let s1 = s\<lparr>isShowingAll := False, currentPage := 1\<rparr>;
          s2 = s1\<lparr>pagination_shown := False\<rparr>;
          s3 = displayAnalyses (slice (filteredAnalyses s2) 0 5) s2
      in showNotification ''Showing recent analyses only'' ''info'' 2000 s3)"

definition changePage :: "int \<Rightarrow> list_view \<Rightarrow> list_view" where
  "changePage direction s =
     (let totalPages' = totalPages (length (filteredAnalyses s));
          newPage = currentPage s + direction
      in if newPage \<ge> 1 \<and> newPage \<le> totalPages'
         then displayAnalysesWithPagination (filteredAnalyses s) (s\<lparr>currentPage := newPage\<rparr>)
         else s)"

text \<open>The values the module-level declarations give the variables when the script loads.\<close>

definition initial_view :: list_view where
  "initial_view =
     \<lparr>notifications = [], allAnalyses = [], filteredAnalyses = [], currentPage = 1,
      isShowingAll = False, rendered = [], pagination_shown = False, page_info = (1, 0),
      prev_disabled = True, next_disabled = True, analysis_count = '''',
      search_clear_shown = False\<rparr>"

text \<open>
  The states the table can reach: every function of the script that writes one of the four
  variables, called with any argument, in any order.
\<close>

inductive reachable :: "list_view \<Rightarrow> bool" where
  init: "reachable initial_view"
| hydrate: "reachable s \<Longrightarrow> reachable (updateAnalysisTable analyses s)"
| search: "reachable s \<Longrightarrow> reachable (performSearch searchTerm s)"
| show_all: "reachable s \<Longrightarrow> reachable (showAllAnalyses s)"
| show_recent: "reachable s \<Longrightarrow> reachable (showRecentAnalyses s)"
| page: "reachable s \<Longrightarrow> reachable (changePage direction s)"


subsection \<open>The search contract in the specification's words\<close>

text \<open>
  A string contains a term case-insensitively when one of its substrings equals the term up
  to letter case. A record matches a term when its filename contains the term
  case-insensitively or the decimal rendering of its id contains the term.
\<close>

definition contains_ci :: "string \<Rightarrow> string \<Rightarrow> bool" where
  "contains_ci s t \<longleftrightarrow> (\<exists>u. sublist u s \<and> toLowerCase u = toLowerCase t)"

definition search_spec :: "string \<Rightarrow> analysis \<Rightarrow> bool" where
  "search_spec t a \<longleftrightarrow>
     (\<exists>f. filename a = Some f \<and> contains_ci f t) \<or> sublist t (toString (id_analysis a))"

definition is_digit :: "char \<Rightarrow> bool" where
  "is_digit c = (48 \<le> (of_char c :: nat) \<and> (of_char c :: nat) \<le> 57)"

text \<open>The invariant behind the page bounds: the page is 1, or it lies within the pages.\<close>

definition page_inv :: "list_view \<Rightarrow> bool" where
  "page_inv s \<longleftrightarrow> currentPage s = 1 \<or>
     (1 \<le> currentPage s \<and> currentPage s \<le> totalPages (length (filteredAnalyses s)))"

subsection \<open>Example states\<close>

definition page_two_of_twelve :: list_view where
  "page_two_of_twelve =
     initial_view\<lparr>allAnalyses := replicate 12 \<lparr>id_analysis = 1, filename = None\<rparr>,
                  filteredAnalyses := replicate 12 \<lparr>id_analysis = 1, filename = None\<rparr>,
                  currentPage := 2, isShowingAll := True\<rparr>"

definition no_match_view :: list_view where
  "no_match_view =
     performSearch ''zzz''
       (updateAnalysisTable [\<lparr>id_analysis = 1, filename = Some ''a.mp3''\<rparr>] initial_view)"

definition two_records :: list_view where
  "two_records =
     updateAnalysisTable [\<lparr>id_analysis = 1, filename = Some ''a.mp3''\<rparr>,
                          \<lparr>id_analysis = 2, filename = Some ''b.wav''\<rparr>] initial_view"


section \<open>Upload queue\<close>

text \<open>
  A selected file (its \<^verbatim>\<open>name\<close> and \<^verbatim>\<open>size\<close>), and an entry of the rendered queue:
  the icon, the file name and the text of the right-hand column, which is the file size when
  the entry is created and a status text once the file has been submitted.
\<close>

record js_file =
  name :: string
  size_file :: nat

datatype item_detail = FileSize nat | Status string

record queue_item =
  item_icon :: string
  item_name :: string
  item_detail :: item_detail

text \<open>
  \<^verbatim>\<open>uploadedFiles\<close> and the two elements of the document the queue functions look up:
  the children of \<^verbatim>\<open>#queue-list\<close> and the \<^verbatim>\<open>display\<close> style of \<^verbatim>\<open>#upload-queue\<close>.
  Either is \<open>None\<close> when \<^verbatim>\<open>getElementById\<close> finds no such element.
\<close>

record upload_queue = notifier +
  uploadedFiles :: "js_file list"
  queue_list :: "queue_item list option"
  upload_queue_display :: "string option"

definition validTypes :: "string list" where
  "validTypes = [''.mp3'', ''.wav'', ''.flac'', ''.m4a'', ''.ogg'']"

definition isValidAudioFile :: "js_file \<Rightarrow> bool" where
  "isValidAudioFile f = list_ex (\<lambda>type'. endsWith (toLowerCase (name f)) type') validTypes"

definition createQueueItem :: "js_file \<Rightarrow> queue_item" where
  "createQueueItem f =
     \<lparr>item_icon = ''fas fa-music'', item_name = name f, item_detail = FileSize (size_file f)\<rparr>"

definition clearUploadQueue :: "upload_queue \<Rightarrow> upload_queue" where
  "clearUploadQueue s =
     s\<lparr>queue_list := map_option (\<lambda>_. []) (queue_list s),
       upload_queue_display := map_option (\<lambda>_. ''none'') (upload_queue_display s),
       uploadedFiles := []\<rparr>"

text \<open>The body of the \<^verbatim>\<open>forEach\<close> callback of \<^verbatim>\<open>addFilesToQueue\<close>.\<close>

definition add_file :: "js_file \<Rightarrow> upload_queue \<Rightarrow> upload_queue" where
  "add_file f s =
     (if isValidAudioFile f
      then s\<lparr>uploadedFiles := uploadedFiles s @ [f],
             queue_list := map_option (\<lambda>items. items @ [createQueueItem f]) (queue_list s)\<rparr>
      else showNotification (''Invalid file type: '' @ name f) ''error'' 3000 s)"

definition addFilesToQueue :: "js_file list \<Rightarrow> upload_queue \<Rightarrow> upload_queue" where
  "addFilesToQueue files s =
     (if queue_list s = None \<or> upload_queue_display s = None then s
      else let s' = fold add_file files s
           in if (case queue_list s' of None \<Rightarrow> False | Some items \<Rightarrow> length items > 0)
              then s'\<lparr>upload_queue_display := Some ''block''\<rparr>
              else s')"

text \<open>
  The specification's wording of the allow-list: the name, lower-cased, ends with one of
  the five extensions.
\<close>

definition allowed_extension :: "string \<Rightarrow> bool" where
  "allowed_extension n \<longleftrightarrow>
     (\<exists>e \<in> {''.mp3'', ''.wav'', ''.flac'', ''.m4a'', ''.ogg''}. suffix e (toLowerCase n))"

subsection \<open>Example states\<close>

definition empty_queue :: upload_queue where
  "empty_queue =
     \<lparr>notifications = [], uploadedFiles = [], queue_list = Some [],
      upload_queue_display = Some ''none''\<rparr>"

definition detached_queue :: upload_queue where
  "detached_queue =
     \<lparr>notifications = [], uploadedFiles = [], queue_list = None,
      upload_queue_display = None\<rparr>"

definition song_upper :: js_file where
  "song_upper = \<lparr>name = ''SONG.MP3'', size_file = 1024\<rparr>"

definition notes_txt :: js_file where
  "notes_txt = \<lparr>name = ''notes.txt'', size_file = 10\<rparr>"

definition track_wav :: js_file where
  "track_wav = \<lparr>name = ''track.wav'', size_file = 2048\<rparr>"


section \<open>Task tracker\<close>

text \<open>
  What one poll of \<^verbatim>\<open>/api/tasks/{taskId}\<close> can come back with: \<^verbatim>\<open>fetch\<close> or
  \<^verbatim>\<open>response.json()\<close> throws, the response is not \<^verbatim>\<open>ok\<close>, or the body carries a
  \<^verbatim>\<open>status\<close> string.
\<close>

datatype poll_response = Threw | NotOk | TaskStatus string

datatype timer_callback = Poll | ClearQueue

text \<open>
  The state one call of \<^verbatim>\<open>pollTaskStatus\<close> owns or touches: its local counter
  \<^verbatim>\<open>attempts\<close>, the queue entry \<^verbatim>\<open>item\<close> it rewrites, and the timers it has set with
  \<^verbatim>\<open>setTimeout\<close> that have not fired yet, as (delay in milliseconds, callback) pairs.
\<close>

record tracker = notifier +
  attempts :: nat
  item :: queue_item
  timers :: "(nat \<times> timer_callback) list"

definition maxAttempts :: nat where
  "maxAttempts = 30"

definition status_item :: "string \<Rightarrow> string \<Rightarrow> string \<Rightarrow> queue_item" where
  "status_item icon fileName text' =
     \<lparr>item_icon = icon, item_name = fileName, item_detail = Status text'\<rparr>"

text \<open>The closure \<^verbatim>\<open>poll\<close>, run on the outcome of its \<^verbatim>\<open>fetch\<close>.\<close>

definition poll :: "string \<Rightarrow> poll_response \<Rightarrow> tracker \<Rightarrow> tracker" where
  "poll fileName r s =
     (case r of
        Threw \<Rightarrow> s\<lparr>item := status_item ''fas fa-exclamation-circle'' fileName ''Error''\<rparr>
      | NotOk \<Rightarrow> s
      | TaskStatus status \<Rightarrow>
          if status = ''completed'' then
            (let s1 = s\<lparr>item := status_item ''fas fa-check-circle'' fileName ''Completed''\<rparr>;
                 s2 = showNotification (''Analysis completed for '' @ fileName) ''success'' 3000 s1
             in s2\<lparr>timers := timers s2 @ [(2000, ClearQueue)]\<rparr>)
          else if status = ''failed'' then
            (let s1 = s\<lparr>item := status_item ''fas fa-exclamation-circle'' fileName ''Failed''\<rparr>
             in showNotification (''Analysis failed for '' @ fileName) ''error'' 3000 s1)
          else if status = ''running'' \<and> attempts s < maxAttempts then
            s\<lparr>attempts := attempts s + 1, timers := timers s @ [(1000, Poll)]\<rparr>
          else s\<lparr>item := status_item ''fas fa-clock'' fileName ''Timeout''\<rparr>)"

text \<open>
  The timer loop: while a re-poll is pending, the timer fires and \<^verbatim>\<open>poll\<close> runs on the
  next response; once no re-poll is pending the remaining responses are never fetched.
\<close>

fun run_polls :: "string \<Rightarrow> poll_response list \<Rightarrow> tracker \<Rightarrow> tracker" where
  "run_polls fileName [] s = s"
| "run_polls fileName (r # rs) s =
     (if (1000, Poll) \<in> set (timers s)
      then run_polls fileName rs (poll fileName r (s\<lparr>timers := remove1 (1000, Poll) (timers s)\<rparr>))
      else s)"

definition new_tracker :: "queue_item \<Rightarrow> tracker" where
  "new_tracker item' = \<lparr>notifications = [], attempts = 0, item = item', timers = []\<rparr>"

text \<open>
  \<^verbatim>\<open>pollTaskStatus(taskId, item, fileName)\<close> on the responses the server gives to this
  task's polls, in order: \<^verbatim>\<open>attempts\<close> starts at 0 and \<^verbatim>\<open>poll\<close> is called once directly.
\<close>

definition pollTaskStatus :: "string \<Rightarrow> queue_item \<Rightarrow> poll_response list \<Rightarrow> tracker" where
  "pollTaskStatus fileName item' responses =
     (case responses of
        [] \<Rightarrow> new_tracker item'
      | r # rs \<Rightarrow> run_polls fileName rs (poll fileName r (new_tracker item')))"

text \<open>The tracker after \<open>k\<close> re-polls have been scheduled, waiting for the next one.\<close>

definition waiting :: "queue_item \<Rightarrow> nat \<Rightarrow> tracker" where
  "waiting item' k = \<lparr>notifications = [], attempts = k, item = item', timers = [(1000, Poll)]\<rparr>"

text \<open>A tracker still polls while a re-poll is pending.\<close>

definition polling :: "tracker \<Rightarrow> bool" where
  "polling s \<longleftrightarrow> (1000, Poll) \<in> set (timers s)"

definition processing_item :: "string \<Rightarrow> queue_item" where
  "processing_item fileName = status_item ''fas fa-spinner fa-spin'' fileName ''Processing...''"


section \<open>Submitting the queue\<close>

text \<open>
  What the \<^verbatim>\<open>POST /api/analyze/async\<close> of one file can come back with: \<^verbatim>\<open>fetch\<close> or
  \<^verbatim>\<open>response.json()\<close> throws an error with a message, the response is not \<^verbatim>\<open>ok\<close> and
  its body may carry a \<^verbatim>\<open>detail\<close>, or it is \<^verbatim>\<open>ok\<close> and carries the task id.
\<close>

datatype submit_response = SubmitThrew string | SubmitNotOk "string option" | SubmitOk string

text \<open>
  One call of \<^verbatim>\<open>pollTaskStatus\<close> as \<^verbatim>\<open>startAnalysis\<close> makes it: the file name, the state
  of the tracker, whether a status request is under way, and the position among the
  children of \<^verbatim>\<open>#queue-list\<close> of the element the tracker rewrites, which is \<open>None\<close> once
  that element has been removed from the list. The tracker's own log holds the
  notifications it has shown.
\<close>

record job =
  job_file :: string
  slot :: "nat option"
  fetching :: bool
  core :: tracker

text \<open>The upload queue together with the trackers started for its files.\<close>

record upload_page =
  page_queue :: upload_queue
  jobs :: "job list"

text \<open>Rewriting the \<^verbatim>\<open>innerHTML\<close> of the \<open>i\<close>-th child of \<^verbatim>\<open>#queue-list\<close>.\<close>

definition set_item :: "nat \<Rightarrow> queue_item \<Rightarrow> upload_queue \<Rightarrow> upload_queue" where
  "set_item i it q = q\<lparr>queue_list := map_option (\<lambda>items. items[i := it]) (queue_list q)\<rparr>"

text \<open>The \<^verbatim>\<open>catch\<close> block of the loop of \<^verbatim>\<open>startAnalysis\<close>.\<close>

definition failed_to_start :: "nat \<Rightarrow> string \<Rightarrow> string \<Rightarrow> upload_page \<Rightarrow> upload_page" where
  "failed_to_start i fileName message p =
     p\<lparr>page_queue :=
         showNotification (''Failed to analyze '' @ fileName @ '': '' @ message) ''error'' 3000
           (set_item i
              (status_item ''fas fa-exclamation-circle'' fileName (''Failed: '' @ message))
              (page_queue p))\<rparr>"

text \<open>
  The body of the loop for the file at position \<open>i\<close>. An accepted file gets the spinner and
  a tracker, whose first status request is under way when \<^verbatim>\<open>pollTaskStatus\<close> returns. The
  opacity the loop gives the entry is not part of the state.
\<close>

definition submit_file :: "nat \<Rightarrow> js_file \<Rightarrow> submit_response \<Rightarrow> upload_page \<Rightarrow> upload_page" where
  "submit_file i f r p =
     (case r of
        SubmitOk taskId \<Rightarrow>
          p\<lparr>page_queue := set_item i (processing_item (name f)) (page_queue p),
            jobs := jobs p @
              [\<lparr>job_file = name f, slot = Some i, fetching = True,
                core = pollTaskStatus (name f) (processing_item (name f)) []\<rparr>]\<rparr>
      | SubmitNotOk detail \<Rightarrow>
          failed_to_start i (name f)
            (case detail of
               None \<Rightarrow> ''Analysis failed to start''
             | Some d \<Rightarrow> if d = [] then ''Analysis failed to start'' else d) p
      | SubmitThrew message \<Rightarrow> failed_to_start i (name f) message p)"

text \<open>
  The loop over \<^verbatim>\<open>uploadedFiles\<close> and the \<open>n\<close> children that \<^verbatim>\<open>queueItems\<close> holds, with
  the answers to the submissions in order. Where the answers run out the function is still
  waiting for one; after the loop it shows its last notification.
\<close>

fun submit_loop ::
  "nat \<Rightarrow> nat \<Rightarrow> js_file list \<Rightarrow> submit_response list \<Rightarrow> upload_page \<Rightarrow> upload_page" where
  "submit_loop n i [] rs p =
     p\<lparr>page_queue := showNotification ''Analysis started for all files!'' ''success'' 3000
                       (page_queue p)\<rparr>"
| "submit_loop n i (f # fs) rs p =
     (if i < n then
        (case rs of
           [] \<Rightarrow> p
         | r # rs' \<Rightarrow> submit_loop n (Suc i) fs rs' (submit_file i f r p))
      else p\<lparr>page_queue := showNotification ''Analysis started for all files!'' ''success'' 3000
                             (page_queue p)\<rparr>)"

text \<open>
  \<^verbatim>\<open>startAnalysis\<close>, on the answers to its submissions. It reads \<^verbatim>\<open>queueList.children\<close>
  without a check, so without the element it throws at once. The option controls it reads
  are taken to exist.
\<close>

definition startAnalysis :: "submit_response list \<Rightarrow> upload_page \<Rightarrow> upload_page" where
  "startAnalysis rs p =
     (case queue_list (page_queue p) of
        None \<Rightarrow> p
      | Some items \<Rightarrow>
          if length items = 0 then
            p\<lparr>page_queue := showNotification ''No files in queue'' ''warning'' 3000 (page_queue p)\<rparr>
          else if length (uploadedFiles (page_queue p)) = 0 then
            p\<lparr>page_queue := showNotification ''No files available for analysis'' ''warning'' 3000
                              (page_queue p)\<rparr>
          else
            submit_loop (length items) 0 (uploadedFiles (page_queue p)) rs
              (p\<lparr>page_queue := showNotification ''Starting analysis...'' ''info'' 3000
                                (page_queue p)\<rparr>))"

text \<open>
  The status request of tracker \<open>k\<close> is answered: \<^verbatim>\<open>poll\<close> runs on the answer, and what it
  writes to its element shows in the queue while the element is still a child of the list.
\<close>

definition respond :: "nat \<Rightarrow> poll_response \<Rightarrow> upload_page \<Rightarrow> upload_page" where
  "respond k r p =
     (if k < length (jobs p) \<and> fetching (jobs p ! k) then
        (let j = jobs p ! k;
             j' = j\<lparr>fetching := False, core := poll (job_file j) r (core j)\<rparr>;
             q = (case slot j' of
                    None \<Rightarrow> page_queue p
                  | Some i \<Rightarrow> set_item i (item (core j')) (page_queue p))
         in p\<lparr>page_queue := q, jobs := (jobs p)[k := j']\<rparr>)
      else p)"

text \<open>
  A timer that tracker \<open>k\<close> has set fires. The re-poll timer starts the next status
  request. The other timer runs \<^verbatim>\<open>clearUploadQueue()\<close>, which removes every child of
  \<^verbatim>\<open>#queue-list\<close>, so that no tracker's element is in the list any more.
\<close>

definition fire_timer :: "nat \<Rightarrow> nat \<times> timer_callback \<Rightarrow> upload_page \<Rightarrow> upload_page" where
  "fire_timer k t p =
     (if k < length (jobs p) \<and> t \<in> set (timers (core (jobs p ! k))) then
        (let j = jobs p ! k;
             j' = j\<lparr>core := (core j)\<lparr>timers := remove1 t (timers (core j))\<rparr>\<rparr>
         in case snd t of
              Poll \<Rightarrow> p\<lparr>jobs := (jobs p)[k := j'\<lparr>fetching := True\<rparr>]\<rparr>
            | ClearQueue \<Rightarrow>
                p\<lparr>page_queue := clearUploadQueue (page_queue p),
                  jobs := map (\<lambda>j. j\<lparr>slot := None\<rparr>) ((jobs p)[k := j'])\<rparr>)
      else p)"

subsection \<open>Example states\<close>

definition a_mp3 :: js_file where
  "a_mp3 = \<lparr>name = ''a.mp3'', size_file = 1024\<rparr>"

definition b_mp3 :: js_file where
  "b_mp3 = \<lparr>name = ''b.mp3'', size_file = 2048\<rparr>"

text \<open>Two files queued and both submissions accepted.\<close>

definition two_submitted :: upload_page where
  "two_submitted =
     startAnalysis [SubmitOk ''t1'', SubmitOk ''t2'']
       \<lparr>page_queue = addFilesToQueue [a_mp3, b_mp3] empty_queue, jobs = []\<rparr>"

text \<open>Then the first task is reported failed and the second completed.\<close>

definition one_failed_one_completed :: upload_page where
  "one_failed_one_completed =
     respond 1 (TaskStatus ''completed'') (respond 0 (TaskStatus ''failed'') two_submitted)"


section \<open>Audio playback\<close>

text \<open>
  An \<^verbatim>\<open>Audio\<close> element: the analysis whose stream it was created for, its \<^verbatim>\<open>paused\<close>
  flag, its playback position \<^verbatim>\<open>currentTime\<close>, its \<^verbatim>\<open>duration\<close>, which is \<open>None\<close> while
  the browser reports \<^verbatim>\<open>NaN\<close> (metadata not loaded yet), its \<^verbatim>\<open>readyState\<close> (0 to 4), its
  \<^verbatim>\<open>error\<close> attribute as a (code, message) pair, and whether the promise that \<^verbatim>\<open>play()\<close>
  returned is still unsettled. Times are real numbers of seconds; streams of unbounded
  duration are left out.
\<close>

record audio =
  source_id :: nat
  paused :: bool
  currentTime :: real
  duration :: "real option"
  readyState :: nat
  media_error :: "(nat \<times> string) option"
  play_pending :: bool

text \<open>
  A \<^verbatim>\<open>.play-button\<close> of the table: the id inside its \<^verbatim>\<open>onclick="playAudio(id)"\<close>
  attribute, whether it carries the class \<^verbatim>\<open>playing\<close>, the class of its icon and its title.
\<close>

record play_button =
  onclick_id :: nat
  playing :: bool
  icon_class :: string
  title :: string

text \<open>
  What the playback functions do to media elements and to the buttons, in order; for an
  assignment to \<^verbatim>\<open>currentTime\<close>, the value the script assigned.
\<close>

datatype media_effect =
    Paused nat
  | ButtonsUpdated nat string
  | Created nat nat
  | PlayCalled nat
  | TimeAssigned nat real

text \<open>
  \<^verbatim>\<open>currentAudio\<close> and \<^verbatim>\<open>currentAnalysisId\<close>, with the store of every \<^verbatim>\<open>Audio\<close> element
  created so far: an element is addressed by its position in \<open>elements\<close>, and stays in
  the store, with its listeners, after the script has dropped its reference. Every call of
  \<^verbatim>\<open>playAudio\<close> arms one load timeout and attaches one \<^verbatim>\<open>catch\<close> callback to the promise
  of \<^verbatim>\<open>play()\<close>: \<open>load_timeouts\<close> holds the elements whose call's timeout is armed, and
  \<open>rejected_plays\<close> the promises that have been rejected and whose callback has not run
  yet, each with the message of its error.
\<close>

record player = notifier +
  elements :: "audio list"
  currentAudio :: "nat option"
  currentAnalysisId :: "nat option"
  playButtons :: "play_button list"
  player_shown :: bool
  effects :: "media_effect list"
  load_timeouts :: "nat list"
  rejected_plays :: "(nat \<times> string) list"

definition element_at :: "nat \<Rightarrow> player \<Rightarrow> audio option" where
  "element_at h s = (if h < length (elements s) then Some (elements s ! h) else None)"

definition update_element :: "nat \<Rightarrow> (audio \<Rightarrow> audio) \<Rightarrow> player \<Rightarrow> player" where
  "update_element h f s =
     (if h < length (elements s) then s\<lparr>elements := (elements s)[h := f (elements s ! h)]\<rparr>
      else s)"

subsection \<open>The media element\<close>

text \<open>
  The three operations of \<^verbatim>\<open>HTMLMediaElement\<close> that the script uses, as the HTML standard
  defines them. \<^verbatim>\<open>play()\<close> clears \<^verbatim>\<open>paused\<close> and returns a promise that stays pending
  until playback has started. \<^verbatim>\<open>pause()\<close> on an element that is not paused sets
  \<^verbatim>\<open>paused\<close> and rejects the pending promise with an \<^verbatim>\<open>AbortError\<close>; the callbacks of
  the promise run after the calling script has returned. Assigning \<^verbatim>\<open>currentTime\<close> on an
  element with loaded metadata seeks: a position past the end of the media becomes the
  end, and a position before its start becomes the start.
\<close>

definition abort_message :: string where
  "abort_message = ''The play() request was interrupted by a call to pause().''"

definition media_play :: "nat \<Rightarrow> player \<Rightarrow> player" where
  "media_play h s = update_element h (\<lambda>e. e\<lparr>paused := False, play_pending := True\<rparr>) s"

definition media_pause :: "nat \<Rightarrow> player \<Rightarrow> player" where
  "media_pause h s =
     (case element_at h s of
        None \<Rightarrow> s
      | Some e \<Rightarrow>
          if paused e then s
          else (update_element h (\<lambda>e. e\<lparr>paused := True, play_pending := False\<rparr>) s)
                 \<lparr>rejected_plays :=
                    rejected_plays s @ (if play_pending e then [(h, abort_message)] else [])\<rparr>)"

definition seek_position :: "real \<Rightarrow> real \<Rightarrow> real" where
  "seek_position t d = max 0 (min t d)"

subsection \<open>The playback functions\<close>

definition reset_button :: "play_button \<Rightarrow> play_button" where
  "reset_button b = b\<lparr>playing := False, icon_class := ''fas fa-play'', title := ''Play audio''\<rparr>"

definition updatePlayButtons :: "nat \<Rightarrow> string \<Rightarrow> player \<Rightarrow> player" where
  "updatePlayButtons analysisId state s =
     s\<lparr>playButtons :=
         map (\<lambda>btn.
               if onclick_id btn = analysisId then
                 (if state = ''playing''
                  then btn\<lparr>playing := True, icon_class := ''fas fa-pause'',
                           title := ''Pause audio''\<rparr>
                  else reset_button btn)
               else if state = ''playing'' then reset_button btn
               else btn)
             (playButtons s),
       effects := effects s @ [ButtonsUpdated analysisId state]\<rparr>"

text \<open>
  \<^verbatim>\<open>showGlobalAudioPlayer\<close> makes the player bar visible; its title and progress display
  are not part of the state.
\<close>

definition showGlobalAudioPlayer :: "nat \<Rightarrow> player \<Rightarrow> player" where
  "showGlobalAudioPlayer analysisId s = s\<lparr>player_shown := True\<rparr>"

definition hideGlobalAudioPlayer :: "player \<Rightarrow> player" where
  "hideGlobalAudioPlayer s = s\<lparr>player_shown := False\<rparr>"

text \<open>
  The synchronous part of \<^verbatim>\<open>playAudio\<close>. The listeners it adds to the new element, the
  load timeout and the \<^verbatim>\<open>catch\<close> callback are the functions of the next subsection; they
  belong to the element the call created.
\<close>

definition playAudio :: "nat \<Rightarrow> player \<Rightarrow> player" where
  "playAudio analysisId s =
     (let s1 = (case currentAudio s of
                  None \<Rightarrow> s
                | Some h \<Rightarrow>
                    (media_pause h s)\<lparr>currentAudio := None, effects := effects s @ [Paused h]\<rparr>);
          s2 = updatePlayButtons analysisId ''playing'' s1;
          h' = length (elements s2);
          s3 = s2\<lparr>elements := elements s2 @
                      [\<lparr>source_id = analysisId, paused = True, currentTime = 0, duration = None,
                        readyState = 0, media_error = None, play_pending = False\<rparr>],
                  currentAudio := Some h', currentAnalysisId := Some analysisId,
                  effects := effects s2 @ [Created h' analysisId]\<rparr>;
          s4 = showGlobalAudioPlayer analysisId s3;
          s5 = s4\<lparr>load_timeouts := load_timeouts s4 @ [h']\<rparr>;
          s6 = media_play h' s5
      in s6\<lparr>effects := effects s6 @ [PlayCalled h']\<rparr>)"

subsection \<open>The callbacks that \<^verbatim>\<open>playAudio\<close> registers\<close>

text \<open>
  Each callback closes over the \<^verbatim>\<open>analysisId\<close> and the \<^verbatim>\<open>loadTimeout\<close> of the call that
  registered it, but reads and writes the global \<^verbatim>\<open>currentAudio\<close>. Below, \<open>h\<close> is the
  element that call created; its \<^verbatim>\<open>analysisId\<close> is the \<open>source_id\<close> of \<open>h\<close>. Four of
  the callbacks end with the same four statements, \<open>close_session\<close>. The
  \<^verbatim>\<open>timeupdate\<close> and \<^verbatim>\<open>loadedmetadata\<close> listeners only redraw the progress display.
\<close>

definition close_session :: "nat \<Rightarrow> player \<Rightarrow> player" where
  "close_session analysisId s =
     (hideGlobalAudioPlayer (updatePlayButtons analysisId ''stopped'' s))
       \<lparr>currentAudio := None, currentAnalysisId := None\<rparr>"

definition on_loadstart :: "nat \<Rightarrow> player \<Rightarrow> player" where
  "on_loadstart h s = showNotification ''Loading audio...'' ''info'' 2000 s"

text \<open>
  The two \<^verbatim>\<open>canplay\<close> listeners, in the order they were added; \<^verbatim>\<open>updateAudioProgress\<close>
  only redraws the progress display.
\<close>

definition on_canplay :: "nat \<Rightarrow> player \<Rightarrow> player" where
  "on_canplay h s =
     (let s1 = showNotification ''Audio ready to play'' ''success'' 2000 s
      in s1\<lparr>load_timeouts := removeAll h (load_timeouts s1)\<rparr>)"

text \<open>
  The \<^verbatim>\<open>error\<close> listener reads \<^verbatim>\<open>currentAudio.error\<close>: with no current element that read
  throws and the listener ends there.
\<close>

definition error_message :: "(nat \<times> string) option \<Rightarrow> string" where
  "error_message err =
     (case err of
        None \<Rightarrow> ''Error loading audio file''
      | Some (code, message) \<Rightarrow>
          if code = 1 then ''Audio playback was aborted''
          else if code = 2 then ''Network error loading audio file''
          else if code = 3 then ''Audio file format not supported''
          else if code = 4 then ''Audio file not found or not supported''
          else ''Audio error: '' @ message)"

definition on_error :: "nat \<Rightarrow> player \<Rightarrow> player" where
  "on_error h s =
     (case element_at h s of
        None \<Rightarrow> s
      | Some e \<Rightarrow>
          (case currentAudio s of
             None \<Rightarrow> s
           | Some c \<Rightarrow>
               (case element_at c s of
                  None \<Rightarrow> s
                | Some cur \<Rightarrow>
                    close_session (source_id e)
                      (showNotification (error_message (media_error cur)) ''error'' 3000 s))))"

definition on_ended :: "nat \<Rightarrow> player \<Rightarrow> player" where
  "on_ended h s =
     (case element_at h s of
        None \<Rightarrow> s
      | Some e \<Rightarrow> close_session (source_id e) s)"

text \<open>The load timeout of the call that created \<open>h\<close> fires, 10 seconds after the call.\<close>

definition on_load_timeout :: "nat \<Rightarrow> player \<Rightarrow> player" where
  "on_load_timeout h s =
     (case element_at h s of
        None \<Rightarrow> s
      | Some e \<Rightarrow>
          if h \<notin> set (load_timeouts s) then s
          else (let s1 = s\<lparr>load_timeouts := removeAll h (load_timeouts s)\<rparr>
                in case currentAudio s1 of
                     None \<Rightarrow> s1
                   | Some c \<Rightarrow>
                       (case element_at c s1 of
                          None \<Rightarrow> s1
                        | Some cur \<Rightarrow>
                            if readyState cur < 2
                            then close_session (source_id e)
                                   (showNotification ''Audio file not found or cannot be loaded''
                                      ''error'' 3000 s1)
                            else s1)))"

text \<open>The \<^verbatim>\<open>catch\<close> callback of the promise that \<^verbatim>\<open>play()\<close> returned for \<open>h\<close>.\<close>

definition on_play_rejected :: "nat \<Rightarrow> string \<Rightarrow> player \<Rightarrow> player" where
  "on_play_rejected h message s =
     (case element_at h s of
        None \<Rightarrow> s
      | Some e \<Rightarrow>
          (let s1 = s\<lparr>load_timeouts := removeAll h (load_timeouts s)\<rparr>;
               s2 = showNotification (''Error playing audio: '' @ message) ''error'' 3000 s1
           in close_session (source_id e) s2))"

text \<open>
  Once the running script has returned, the callbacks of the promises rejected meanwhile
  run, in the order of the rejections.
\<close>

definition run_rejected :: "player \<Rightarrow> player" where
  "run_rejected s =
     fold (\<lambda>(h, message) s'. on_play_rejected h message s') (rejected_plays s)
       (s\<lparr>rejected_plays := []\<rparr>)"

text \<open>
  \<^verbatim>\<open>seekAudio(percentage)\<close>: the guard \<^verbatim>\<open>currentAudio && currentAudio.duration\<close> fails
  when there is no current element or its duration is \<^verbatim>\<open>NaN\<close> or 0. The script assigns
  \<open>seekTime\<close> to \<^verbatim>\<open>currentTime\<close>, and the element seeks to it.
\<close>

definition seekAudio :: "real \<Rightarrow> player \<Rightarrow> player" where
  "seekAudio percentage s =
     (case currentAudio s of
        None \<Rightarrow> s
      | Some h \<Rightarrow>
          (case element_at h s of
             None \<Rightarrow> s
           | Some e \<Rightarrow>
               (case duration e of
                  None \<Rightarrow> s
                | Some d \<Rightarrow>
                    if d = 0 then s
                    else (let seekTime = (percentage / 100) * d
                          in (update_element h (\<lambda>a. a\<lparr>currentTime := seek_position seekTime d\<rparr>) s)
                               \<lparr>effects := effects s @ [TimeAssigned h seekTime]\<rparr>))))"

text \<open>The handles of the elements that are not paused.\<close>

definition sounding :: "player \<Rightarrow> nat list" where
  "sounding s = filter (\<lambda>h. \<not> paused (elements s ! h)) [0..<length (elements s)]"

text \<open>The fraction of the duration a request asks for, clamped to \<open>[0, 1]\<close>.\<close>

definition clamped_fraction :: "real \<Rightarrow> real" where
  "clamped_fraction percentage = max 0 (min (percentage / 100) 1)"

subsection \<open>Example states\<close>

definition idle_player :: player where
  "idle_player =
     \<lparr>notifications = [], elements = [], currentAudio = None, currentAnalysisId = None,
      playButtons =
        [\<lparr>onclick_id = 3, playing = False, icon_class = ''fas fa-play'', title = ''Play audio''\<rparr>,
         \<lparr>onclick_id = 5, playing = False, icon_class = ''fas fa-play'', title = ''Play audio''\<rparr>],
      player_shown = False, effects = [], load_timeouts = [], rejected_plays = []\<rparr>"

text \<open>Two calls of \<^verbatim>\<open>playAudio\<close> in a row, nothing happening in between.\<close>

definition switched :: player where
  "switched = playAudio 5 (playAudio 3 idle_player)"

definition loaded_player :: player where
  "loaded_player =
     \<lparr>notifications = [],
      elements = [\<lparr>source_id = 3, paused = False, currentTime = 0, duration = Some 200,
                  readyState = 4, media_error = None, play_pending = False\<rparr>],
      currentAudio = Some 0, currentAnalysisId = Some 3, playButtons = [],
      player_shown = True, effects = [], load_timeouts = [], rejected_plays = []\<rparr>"

definition loading_player :: player where
  "loading_player =
     \<lparr>notifications = [],
      elements = [\<lparr>source_id = 3, paused = False, currentTime = 0, duration = None,
                  readyState = 0, media_error = None, play_pending = True\<rparr>],
      currentAudio = Some 0, currentAnalysisId = Some 3, playButtons = [],
      player_shown = True, effects = [], load_timeouts = [0], rejected_plays = []\<rparr>"


section \<open>Properties of the string functions\<close>

lemma includes_str_sublist: "includes_str s t \<longleftrightarrow> sublist t s"
proof (induction s)
  case Nil
  then show ?case by auto
next
  case (Cons c cs)
  have "take (length t) (c # cs) = t \<longleftrightarrow> prefix t (c # cs)"
    by (metis append_eq_conv_conj prefix_def)
  with Cons show ?case by (simp add: sublist_Cons_right)
qed

lemma dropWhile_all: "(\<forall>x \<in> set (dropWhile P xs). P x) \<longleftrightarrow> (\<forall>x \<in> set xs. P x)"
proof
  assume h: "\<forall>x \<in> set (dropWhile P xs). P x"
  have "set xs = set (takeWhile P xs) \<union> set (dropWhile P xs)"
    by (metis set_append takeWhile_dropWhile_id)
  with h show "\<forall>x \<in> set xs. P x" by (auto dest: set_takeWhileD)
next
  assume "\<forall>x \<in> set xs. P x"
  then show "\<forall>x \<in> set (dropWhile P xs). P x" by (auto dest: set_dropWhileD)
qed

lemma trim_empty_iff: "trim s = [] \<longleftrightarrow> (\<forall>c \<in> set s. isWhiteSpace c)"
  by (simp add: trim_def dropWhile_eq_Nil_conv dropWhile_all)

lemma digit_char_is_digit: "d < 10 \<Longrightarrow> is_digit (digit_char d)"
  by (simp add: is_digit_def digit_char_def)

lemma toString_digits: "\<forall>c \<in> set (toString n). is_digit c"
proof (induction n rule: toString.induct)
  case (1 n)
  show ?case
  proof (cases "n < 10")
    case True
    then show ?thesis by (subst toString.simps) (simp add: digit_char_is_digit)
  next
    case False
    with 1 have "\<forall>c \<in> set (toString (n div 10)). is_digit c" by blast
    moreover have "is_digit (digit_char (n mod 10))" by (simp add: digit_char_is_digit)
    ultimately show ?thesis using False by (subst toString.simps) simp
  qed
qed

lemma toLowerCase_char_upper:
  assumes "65 \<le> (of_char c :: nat)" and "(of_char c :: nat) \<le> 90"
  shows "(of_char (toLowerCase_char c) :: nat) = of_char c + 32"
proof -
  define n :: nat where "n = of_char c"
  have n: "65 \<le> n" "n \<le> 90" using assms by (simp_all only: n_def)
  have "toLowerCase_char c = char_of (n + 32)"
    unfolding toLowerCase_char_def n_def using assms by (simp only: simp_thms if_True)
  then have "(of_char (toLowerCase_char c) :: nat) = (n + 32) mod 256"
    by (simp only: of_char_of)
  also have "\<dots> = n + 32" using n by simp
  finally show ?thesis by (simp only: n_def)
qed

lemma toLowerCase_char_other:
  "\<not> (65 \<le> (of_char c :: nat) \<and> (of_char c :: nat) \<le> 90) \<Longrightarrow> toLowerCase_char c = c"
  unfolding toLowerCase_char_def by (simp only: if_False)

lemma lower_digit: "is_digit (toLowerCase_char c) \<Longrightarrow> toLowerCase_char c = c"
proof (cases "65 \<le> (of_char c :: nat) \<and> (of_char c :: nat) \<le> 90")
  case True
  define n :: nat where "n = of_char c"
  have n: "65 \<le> n" "n \<le> 90" using True by (simp_all only: n_def)
  have "(of_char (toLowerCase_char c) :: nat) = n + 32"
    using True by (simp only: toLowerCase_char_upper n_def)
  then have "\<not> is_digit (toLowerCase_char c)"
    unfolding is_digit_def using n by (simp only:) linarith
  moreover assume "is_digit (toLowerCase_char c)"
  ultimately show ?thesis by blast
next
  case False
  then show ?thesis by (rule toLowerCase_char_other)
qed

lemma digit_lower: "is_digit c \<Longrightarrow> toLowerCase_char c = c"
proof -
  assume d: "is_digit c"
  define n :: nat where "n = of_char c"
  from d have "48 \<le> n \<and> n \<le> 57" by (simp only: is_digit_def n_def)
  then have "\<not> (65 \<le> n \<and> n \<le> 90)" by linarith
  then show ?thesis unfolding n_def by (rule toLowerCase_char_other)
qed

lemma lower_digits: "\<forall>c \<in> set (toLowerCase t). is_digit c \<Longrightarrow> toLowerCase t = t"
proof (induction t)
  case Nil
  show ?case by (simp add: toLowerCase_def)
next
  case (Cons c cs)
  from Cons.prems have "is_digit (toLowerCase_char c)" by (simp add: toLowerCase_def)
  then have c: "toLowerCase_char c = c" by (rule lower_digit)
  from Cons.prems have "\<forall>x \<in> set (toLowerCase cs). is_digit x" by (simp add: toLowerCase_def)
  then have "toLowerCase cs = cs" by (rule Cons.IH)
  with c show ?case by (simp add: toLowerCase_def)
qed

lemma digits_lower: "\<forall>c \<in> set t. is_digit c \<Longrightarrow> toLowerCase t = t"
  unfolding toLowerCase_def by (induction t) (simp_all add: digit_lower)

lemma sublist_set: "sublist t s \<Longrightarrow> set t \<subseteq> set s"
  by (auto simp: sublist_def)

lemma id_match_lower:
  "includes_str (toString n) (toLowerCase t) \<longleftrightarrow> sublist t (toString n)"
proof
  assume "includes_str (toString n) (toLowerCase t)"
  then have sub: "sublist (toLowerCase t) (toString n)" by (simp add: includes_str_sublist)
  then have "\<forall>c \<in> set (toLowerCase t). is_digit c"
    using toString_digits sublist_set by blast
  then have "toLowerCase t = t" by (rule lower_digits)
  with sub show "sublist t (toString n)" by simp
next
  assume sub: "sublist t (toString n)"
  then have "\<forall>c \<in> set t. is_digit c" using toString_digits sublist_set by blast
  then have "toLowerCase t = t" by (rule digits_lower)
  with sub show "includes_str (toString n) (toLowerCase t)" by (simp add: includes_str_sublist)
qed

section \<open>Properties of the analysis table\<close>

lemma showNotification_view [simp]:
  "currentPage (showNotification m t d s) = currentPage s"
  "filteredAnalyses (showNotification m t d s) = filteredAnalyses s"
  "allAnalyses (showNotification m t d s) = allAnalyses s"
  by (simp_all add: showNotification_def)

lemma displayAnalyses_view [simp]:
  "currentPage (displayAnalyses as s) = currentPage s"
  "filteredAnalyses (displayAnalyses as s) = filteredAnalyses s"
  "allAnalyses (displayAnalyses as s) = allAnalyses s"
  "rendered (displayAnalyses as s) = rendered s @ [as]"
  by (simp_all add: displayAnalyses_def)

lemma displayAnalysesWithPagination_view [simp]:
  "currentPage (displayAnalysesWithPagination as s) = currentPage s"
  "filteredAnalyses (displayAnalysesWithPagination as s) = filteredAnalyses s"
  "allAnalyses (displayAnalysesWithPagination as s) = allAnalyses s"
  "rendered (displayAnalysesWithPagination as s) =
     rendered s @ [slice as ((currentPage s - 1) * 10) ((currentPage s - 1) * 10 + 10)]"
  by (simp_all add: displayAnalysesWithPagination_def updatePagination_def Let_def
      itemsPerPage_def)

lemma changePage_filtered [simp]: "filteredAnalyses (changePage d s) = filteredAnalyses s"
  by (simp add: changePage_def Let_def)

lemma changePage_cases:
  "changePage d s =
     (if 1 \<le> currentPage s + d \<and> currentPage s + d \<le> totalPages (length (filteredAnalyses s))
      then displayAnalysesWithPagination (filteredAnalyses s) (s\<lparr>currentPage := currentPage s + d\<rparr>)
      else s)"
  by (simp add: changePage_def Let_def)

lemma totalPages_ceiling: "totalPages n = \<lceil>real n / 10\<rceil>"
  by (simp add: totalPages_def itemsPerPage_def)

text \<open>
  Claim C5. With \<open>totalPages = ceil(|filteredSet| / 10)\<close>: when \<open>currentPage + delta\<close>
  falls outside \<open>[1, totalPages]\<close>, \<^verbatim>\<open>changePage(delta)\<close> returns the state as it was, so
  the page is unchanged and nothing is rendered; otherwise the page becomes
  \<open>currentPage + delta\<close> and one window is rendered. A page that \<^verbatim>\<open>changePage\<close> writes
  is always inside \<open>[1, totalPages]\<close>, and a page that was inside stays inside.
\<close>

theorem changePage_bounds:
  "(currentPage s + d < 1 \<or> \<lceil>real (length (filteredAnalyses s)) / 10\<rceil> < currentPage s + d
      \<longrightarrow> changePage d s = s) \<and>
   (1 \<le> currentPage s + d \<and> currentPage s + d \<le> \<lceil>real (length (filteredAnalyses s)) / 10\<rceil>
      \<longrightarrow> currentPage (changePage d s) = currentPage s + d \<and>
          length (rendered (changePage d s)) = Suc (length (rendered s))) \<and>
   (currentPage (changePage d s) \<noteq> currentPage s
      \<longrightarrow> 1 \<le> currentPage (changePage d s) \<and>
          currentPage (changePage d s) \<le> \<lceil>real (length (filteredAnalyses (changePage d s))) / 10\<rceil>) \<and>
   (1 \<le> currentPage s \<and> currentPage s \<le> \<lceil>real (length (filteredAnalyses s)) / 10\<rceil>
      \<longrightarrow> 1 \<le> currentPage (changePage d s) \<and>
          currentPage (changePage d s) \<le> \<lceil>real (length (filteredAnalyses (changePage d s))) / 10\<rceil>)"
  by (simp add: changePage_cases totalPages_ceiling)

theorem changePage_bounds_witness:
  "changePage 1 page_two_of_twelve = page_two_of_twelve \<and>
   currentPage (changePage (- 1) page_two_of_twelve) = 1"
  using changePage_bounds [of page_two_of_twelve 1] changePage_bounds [of page_two_of_twelve "- 1"]
  by (simp add: page_two_of_twelve_def)

lemma reachable_page_inv: "reachable s \<Longrightarrow> page_inv s"
proof (induction rule: reachable.induct)
  case init
  show ?case by (simp add: page_inv_def initial_view_def)
next
  case (hydrate s analyses)
  show ?case by (simp add: page_inv_def updateAnalysisTable_def Let_def)
next
  case (search s searchTerm)
  show ?case by (simp add: page_inv_def performSearch_def Let_def)
next
  case (show_all s)
  show ?case by (simp add: page_inv_def showAllAnalyses_def Let_def)
next
  case (show_recent s)
  show ?case by (simp add: page_inv_def showRecentAnalyses_def Let_def)
next
  case (page s direction)
  then show ?case by (auto simp: page_inv_def changePage_cases)
qed

lemma totalPages_zero: "totalPages 0 = 0"
  by (simp add: totalPages_def)

text \<open>
  Claim C9. In every state the table can reach, \<open>currentPage \<ge> 1\<close>; and when
  \<open>filteredSet\<close> is empty, \<open>totalPages\<close> is 0, the page is 1 and \<^verbatim>\<open>changePage(delta)\<close>
  changes nothing, whatever \<open>delta\<close> is.
\<close>

theorem empty_result_page:
  "reachable s \<Longrightarrow>
     1 \<le> currentPage s \<and>
     (filteredAnalyses s = [] \<longrightarrow>
        totalPages (length (filteredAnalyses s)) = 0 \<and> currentPage s = 1 \<and>
        (\<forall>d. changePage d s = s))"
proof -
  assume "reachable s"
  then have inv: "page_inv s" by (rule reachable_page_inv)
  then have "1 \<le> currentPage s" by (auto simp: page_inv_def)
  moreover have "totalPages (length (filteredAnalyses s)) = 0 \<and> currentPage s = 1 \<and>
        (\<forall>d. changePage d s = s)" if "filteredAnalyses s = []"
    using that inv by (auto simp: page_inv_def totalPages_zero changePage_cases)
  ultimately show ?thesis by blast
qed

lemma no_match_view_empty: "filteredAnalyses no_match_view = []"
  by code_simp

theorem empty_result_page_witness:
  "reachable no_match_view \<and> filteredAnalyses no_match_view = [] \<and>
   currentPage no_match_view = 1 \<and> changePage 7 no_match_view = no_match_view"
proof -
  have r: "reachable no_match_view"
    unfolding no_match_view_def by (intro reachable.intros)
  from empty_result_page [OF r] no_match_view_empty r show ?thesis by blast
qed

lemma sublist_map_iff:
  "sublist ys (map g xs) \<longleftrightarrow> (\<exists>u. sublist u xs \<and> map g u = ys)"
proof
  assume "sublist ys (map g xs)"
  then obtain ps ss where "map g xs = ps @ ys @ ss" by (auto simp: sublist_def)
  then obtain p r where xs: "xs = p @ r" and "map g r = ys @ ss"
    by (metis map_eq_append_conv)
  then obtain u v where "r = u @ v" and "map g u = ys"
    by (metis map_eq_append_conv)
  with xs have "sublist u xs" by (auto simp: sublist_def)
  with \<open>map g u = ys\<close> show "\<exists>u. sublist u xs \<and> map g u = ys" by blast
next
  assume "\<exists>u. sublist u xs \<and> map g u = ys"
  then obtain u ps ss where "xs = ps @ u @ ss" and "map g u = ys" by (auto simp: sublist_def)
  then have "map g xs = map g ps @ ys @ map g ss" by simp
  then show "sublist ys (map g xs)" unfolding sublist_def by blast
qed

lemma includes_lower_contains_ci:
  "includes_str (toLowerCase f) (toLowerCase t) \<longleftrightarrow> contains_ci f t"
  unfolding includes_str_sublist contains_ci_def toLowerCase_def by (rule sublist_map_iff)

lemma not_blank_nonempty: "\<not> (\<forall>c \<in> set t. isWhiteSpace c) \<Longrightarrow> toLowerCase t \<noteq> []"
  by (auto simp: toLowerCase_def)

lemma search_match_spec:
  assumes "\<not> (\<forall>c \<in> set t. isWhiteSpace c)"
  shows "search_match t a \<longleftrightarrow> search_spec t a"
proof (cases "filename a")
  case None
  have "\<not> includes_str [] (toLowerCase t)" using not_blank_nonempty [OF assms] by simp
  with None show ?thesis
    by (simp add: search_match_def search_spec_def Let_def id_match_lower)
next
  case (Some f)
  then show ?thesis
    by (simp add: search_match_def search_spec_def Let_def id_match_lower
        includes_lower_contains_ci)
qed

lemma performSearch_fields:
  "currentPage (performSearch t s) = 1"
  "allAnalyses (performSearch t s) = allAnalyses s"
  "filteredAnalyses (performSearch t s) =
     (if trim t = [] then allAnalyses s else filter (search_match t) (allAnalyses s))"
  by (simp_all add: performSearch_def Let_def)

text \<open>
  Claim C2. \<^verbatim>\<open>performSearch\<close> always sets \<open>currentPage\<close> to 1 and leaves the full set
  alone. For a term that is empty or consists of white space only, \<open>filteredSet\<close> becomes
  the full set. For every other term, \<open>filteredSet\<close> becomes exactly the records, in
  their order, whose filename contains the term case-insensitively or whose id, written in
  decimal, contains the term; the claim's "non-empty" is read as "not empty and not white
  space only", the complement of its first case.
\<close>

theorem performSearch_filter:
  "currentPage (performSearch t s) = 1 \<and>
   allAnalyses (performSearch t s) = allAnalyses s \<and>
   ((\<forall>c \<in> set t. isWhiteSpace c) \<longrightarrow>
      filteredAnalyses (performSearch t s) = allAnalyses s) \<and>
   (\<not> (\<forall>c \<in> set t. isWhiteSpace c) \<longrightarrow>
      filteredAnalyses (performSearch t s) = filter (search_spec t) (allAnalyses s))"
proof (cases "\<forall>c \<in> set t. isWhiteSpace c")
  case True
  then have "trim t = []" by (simp add: trim_empty_iff)
  with True show ?thesis by (simp add: performSearch_fields)
next
  case False
  then have "trim t \<noteq> []" by (simp add: trim_empty_iff)
  moreover have "filter (search_match t) (allAnalyses s) = filter (search_spec t) (allAnalyses s)"
    using search_match_spec [OF False] by (simp cong: filter_cong)
  ultimately have "filteredAnalyses (performSearch t s) = filter (search_spec t) (allAnalyses s)"
    by (simp add: performSearch_fields)
  with False show ?thesis by (simp only: performSearch_fields) blast
qed

lemma two_records_search:
  "filteredAnalyses (performSearch ''A.'' two_records) = [\<lparr>id_analysis = 1, filename = Some ''a.mp3''\<rparr>]"
  "analysis_count (performSearch ''A.'' two_records) = ''1 of 2 analyses''"
  "allAnalyses two_records = [\<lparr>id_analysis = 1, filename = Some ''a.mp3''\<rparr>,
                          \<lparr>id_analysis = 2, filename = Some ''b.wav''\<rparr>]"
  "\<not> (\<forall>c \<in> set ''A.''. isWhiteSpace c)"
  "filteredAnalyses (performSearch ''  '' two_records) = allAnalyses two_records"
  "(\<forall>c \<in> set ''  ''. isWhiteSpace c)"
  "list_all isWhiteSpace ''  ''"
  by code_simp+

theorem performSearch_filter_witness:
  "\<not> (\<forall>c \<in> set ''A.''. isWhiteSpace c) \<and> list_all isWhiteSpace ''  '' \<and>
   filter (search_spec ''A.'') [\<lparr>id_analysis = 1, filename = Some ''a.mp3''\<rparr>,
                          \<lparr>id_analysis = 2, filename = Some ''b.wav''\<rparr>]
     = [\<lparr>id_analysis = 1, filename = Some ''a.mp3''\<rparr>] \<and>
   filteredAnalyses (performSearch ''  '' two_records) = allAnalyses two_records"
  using performSearch_filter [of "''A.''" two_records] performSearch_filter [of "''  ''" two_records]
    two_records_search
  by metis



section \<open>Properties of the upload queue\<close>

lemma endsWith_suffix: "endsWith s t \<longleftrightarrow> suffix t s"
proof
  assume "endsWith s t"
  then have "drop (length s - length t) s = t" by (simp add: endsWith_def)
  then have "s = take (length s - length t) s @ t" by (metis append_take_drop_id)
  then show "suffix t s" unfolding suffix_def by blast
next
  assume "suffix t s"
  then obtain zs where "s = zs @ t" by (auto simp: suffix_def)
  then show "endsWith s t" by (simp add: endsWith_def)
qed

lemma isValidAudioFile_allowed: "isValidAudioFile f \<longleftrightarrow> allowed_extension (name f)"
  by (simp add: isValidAudioFile_def allowed_extension_def validTypes_def endsWith_suffix)

lemma add_file_fields:
  "uploadedFiles (add_file f s) = uploadedFiles s @ (if isValidAudioFile f then [f] else [])"
  "queue_list (add_file f s) =
     map_option (\<lambda>items. items @ (if isValidAudioFile f then [createQueueItem f] else []))
       (queue_list s)"
  "notifications (add_file f s) =
     notifications s @
       (if isValidAudioFile f then [] else [(''Invalid file type: '' @ name f, ''error'', 3000)])"
  "upload_queue_display (add_file f s) = upload_queue_display s"
  by (cases "queue_list s"; simp add: add_file_def showNotification_def)+

lemma fold_add_file:
  "uploadedFiles (fold add_file files s) = uploadedFiles s @ filter isValidAudioFile files \<and>
   queue_list (fold add_file files s) =
     map_option (\<lambda>items. items @ map createQueueItem (filter isValidAudioFile files))
       (queue_list s) \<and>
   notifications (fold add_file files s) =
     notifications s @
       map (\<lambda>f. (''Invalid file type: '' @ name f, ''error'', 3000))
         (filter (\<lambda>f. \<not> isValidAudioFile f) files) \<and>
   upload_queue_display (fold add_file files s) = upload_queue_display s"
proof (induction files arbitrary: s)
  case Nil
  show ?case by (simp add: option.map_ident)
next
  case (Cons f fs)
  show ?case
    by (cases "queue_list s") (simp_all add: Cons.IH add_file_fields)
qed

text \<open>
  Claim C7, as amended. When both elements of the queue exist in the document,
  \<^verbatim>\<open>addFilesToQueue\<close> appends exactly the files whose lower-cased name ends with one of
  the five extensions, in arrival order, to \<^verbatim>\<open>uploadedFiles\<close> and to the rendered list,
  and shows exactly one rejection notification for each other file, in arrival order; such
  a file enters neither list. When one of the two elements is missing it does nothing.
\<close>

theorem addFilesToQueue_valid_only:
  "(queue_list s = Some items \<and> upload_queue_display s = Some d \<longrightarrow>
      uploadedFiles (addFilesToQueue files s) =
        uploadedFiles s @ filter (\<lambda>f. allowed_extension (name f)) files \<and>
      queue_list (addFilesToQueue files s) =
        Some (items @ map createQueueItem (filter (\<lambda>f. allowed_extension (name f)) files)) \<and>
      notifications (addFilesToQueue files s) =
        notifications s @
          map (\<lambda>f. (''Invalid file type: '' @ name f, ''error'', 3000))
            (filter (\<lambda>f. \<not> allowed_extension (name f)) files)) \<and>
   (queue_list s = None \<or> upload_queue_display s = None \<longrightarrow> addFilesToQueue files s = s)"
proof -
  have v: "filter isValidAudioFile files = filter (\<lambda>f. allowed_extension (name f)) files"
    by (rule filter_cong) (simp_all add: isValidAudioFile_allowed)
  have i: "filter (\<lambda>f. \<not> isValidAudioFile f) files =
      filter (\<lambda>f. \<not> allowed_extension (name f)) files"
    by (rule filter_cong) (simp_all add: isValidAudioFile_allowed)
  have folded:
    "uploadedFiles (fold add_file files s) =
       uploadedFiles s @ filter (\<lambda>f. allowed_extension (name f)) files"
    "queue_list (fold add_file files s) =
       map_option (\<lambda>items. items @ map createQueueItem
         (filter (\<lambda>f. allowed_extension (name f)) files)) (queue_list s)"
    "notifications (fold add_file files s) =
       notifications s @
         map (\<lambda>f. (''Invalid file type: '' @ name f, ''error'', 3000))
           (filter (\<lambda>f. \<not> allowed_extension (name f)) files)"
    using fold_add_file [of files s] by (simp_all only: v i)
  show ?thesis
    by (simp add: addFilesToQueue_def Let_def folded)
qed

theorem addFilesToQueue_valid_only_witness:
  "uploadedFiles (addFilesToQueue [track_wav, notes_txt, song_upper] empty_queue) =
     [track_wav, song_upper] \<and>
   queue_list (addFilesToQueue [track_wav, notes_txt, song_upper] empty_queue) =
     Some [createQueueItem track_wav, createQueueItem song_upper] \<and>
   notifications (addFilesToQueue [track_wav, notes_txt, song_upper] empty_queue) =
     [(''Invalid file type: notes.txt'', ''error'', 3000)] \<and>
   addFilesToQueue [track_wav, notes_txt, song_upper] detached_queue = detached_queue"
proof -
  have v: "isValidAudioFile track_wav" "\<not> isValidAudioFile notes_txt" "isValidAudioFile song_upper"
    by code_simp+
  have q: "queue_list empty_queue = Some []" "upload_queue_display empty_queue = Some ''none''"
    "uploadedFiles empty_queue = []" "notifications empty_queue = []"
    "queue_list detached_queue = None" "name notes_txt = ''notes.txt''"
    by (simp_all add: empty_queue_def detached_queue_def notes_txt_def)
  show ?thesis
    using addFilesToQueue_valid_only [of empty_queue "[]" "''none''" "[track_wav, notes_txt, song_upper]"]
      addFilesToQueue_valid_only [of detached_queue "[]" "''none''" "[track_wav, notes_txt, song_upper]"]
      v q
    by (simp add: isValidAudioFile_allowed)
qed

text \<open>
  Claim C7 as stated fails twice. With the queue elements missing, the rejected file
  \<^verbatim>\<open>notes.txt\<close> produces no notification at all. And \<^verbatim>\<open>SONG.MP3\<close>, whose name ends
  with none of the five extensions as written, is queued without a notification.
\<close>

theorem addFilesToQueue_counterexample:
  "\<not> list_ex (endsWith (name notes_txt)) validTypes \<and>
   notifications (addFilesToQueue [notes_txt] detached_queue) = [] \<and>
   \<not> list_ex (endsWith (name song_upper)) validTypes \<and>
   uploadedFiles (addFilesToQueue [song_upper] empty_queue) = [song_upper] \<and>
   queue_list (addFilesToQueue [song_upper] empty_queue) = Some [createQueueItem song_upper] \<and>
   notifications (addFilesToQueue [song_upper] empty_queue) = []"
  by code_simp

text \<open>
  Claim C10. \<^verbatim>\<open>isValidAudioFile\<close> accepts a file if and only if its name, lower-cased,
  ends with one of \<^verbatim>\<open>.mp3 .wav .flac .m4a .ogg\<close>; and a file accepted this way is appended
  to the queue that \<^verbatim>\<open>addFilesToQueue\<close> finds in the document, without a notification.
\<close>

theorem isValidAudioFile_case_insensitive:
  "(isValidAudioFile f \<longleftrightarrow> allowed_extension (name f)) \<and>
   (allowed_extension (name f) \<and> queue_list s = Some items \<and> upload_queue_display s = Some d
      \<longrightarrow> uploadedFiles (addFilesToQueue [f] s) = uploadedFiles s @ [f] \<and>
          queue_list (addFilesToQueue [f] s) = Some (items @ [createQueueItem f]) \<and>
          notifications (addFilesToQueue [f] s) = notifications s)"
  by (auto simp: isValidAudioFile_allowed addFilesToQueue_def Let_def add_file_fields)

theorem isValidAudioFile_case_insensitive_witness:
  "allowed_extension ''SONG.MP3'' \<and>
   uploadedFiles (addFilesToQueue [song_upper] empty_queue) = [song_upper] \<and>
   queue_list (addFilesToQueue [song_upper] empty_queue) = Some [createQueueItem song_upper]"
proof -
  have "isValidAudioFile song_upper" by code_simp
  then have a: "allowed_extension (name song_upper)"
    using isValidAudioFile_case_insensitive [of song_upper empty_queue "[]" "''none''"] by blast
  have q: "queue_list empty_queue = Some []" "upload_queue_display empty_queue = Some ''none''"
    "uploadedFiles empty_queue = []" "name song_upper = ''SONG.MP3''"
    by (simp_all add: empty_queue_def song_upper_def)
  show ?thesis
    using isValidAudioFile_case_insensitive [of song_upper empty_queue "[]" "''none''"] a q
    by simp
qed



section \<open>Properties of the task tracker\<close>

lemma poll_running:
  "attempts s < 30 \<Longrightarrow>
     poll f (TaskStatus ''running'') s =
       s\<lparr>attempts := attempts s + 1, timers := timers s @ [(1000, Poll)]\<rparr>"
  by (simp add: poll_def maxAttempts_def)

lemma poll_running_exhausted:
  "\<not> attempts s < 30 \<Longrightarrow>
     poll f (TaskStatus ''running'') s = s\<lparr>item := status_item ''fas fa-clock'' f ''Timeout''\<rparr>"
  by (simp add: poll_def maxAttempts_def)

lemma poll_completed:
  "poll f (TaskStatus ''completed'') s =
     s\<lparr>item := status_item ''fas fa-check-circle'' f ''Completed'',
       notifications := notifications s @ [(''Analysis completed for '' @ f, ''success'', 3000)],
       timers := timers s @ [(2000, ClearQueue)]\<rparr>"
  by (simp add: poll_def showNotification_def Let_def)

lemma poll_failed:
  "poll f (TaskStatus ''failed'') s =
     s\<lparr>item := status_item ''fas fa-exclamation-circle'' f ''Failed'',
       notifications := notifications s @ [(''Analysis failed for '' @ f, ''error'', 3000)]\<rparr>"
  by (simp add: poll_def showNotification_def Let_def)

lemma run_polls_stopped: "(1000, Poll) \<notin> set (timers s) \<Longrightarrow> run_polls f rs s = s"
  by (cases rs) simp_all

declare run_polls.simps(2) [simp del]

lemma run_polls_waiting:
  "run_polls f (r # rs) (waiting i k) = run_polls f rs (poll f r ((waiting i k)\<lparr>timers := []\<rparr>))"
  by (simp add: waiting_def run_polls.simps(2))

lemma run_polls_running:
  "k + n \<le> 30 \<Longrightarrow>
     run_polls f (replicate n (TaskStatus ''running'') @ rest) (waiting i k) =
       run_polls f rest (waiting i (k + n))"
proof (induction n arbitrary: k)
  case 0
  show ?case by simp
next
  case (Suc n)
  then have k: "k < 30" and le: "Suc k + n \<le> 30" by simp_all
  have "poll f (TaskStatus ''running'') ((waiting i k)\<lparr>timers := []\<rparr>) = waiting i (Suc k)"
    using k by (simp add: poll_running waiting_def)
  then have "run_polls f (replicate (Suc n) (TaskStatus ''running'') @ rest) (waiting i k) =
      run_polls f (replicate n (TaskStatus ''running'') @ rest) (waiting i (Suc k))"
    by (simp add: run_polls_waiting)
  also have "\<dots> = run_polls f rest (waiting i (Suc k + n))" using le by (rule Suc.IH)
  finally show ?case by simp
qed

lemma pollTaskStatus_running:
  assumes "0 < n" and "n \<le> 30"
  shows "pollTaskStatus f i (replicate n (TaskStatus ''running'') @ rest) =
     run_polls f rest (waiting i n)"
proof -
  from assms obtain m where n: "n = Suc m" and m: "1 + m \<le> 30" by (cases n) simp_all
  have "poll f (TaskStatus ''running'') (new_tracker i) = waiting i 1"
    by (simp add: poll_running new_tracker_def waiting_def)
  then have "pollTaskStatus f i (replicate n (TaskStatus ''running'') @ rest) =
      run_polls f (replicate m (TaskStatus ''running'') @ rest) (waiting i 1)"
    by (simp add: pollTaskStatus_def n)
  also have "\<dots> = run_polls f rest (waiting i (1 + m))" using m by (rule run_polls_running)
  finally show ?thesis by (simp add: n)
qed

text \<open>
  The response that follows \<open>n\<close> running responses is handled by \<^verbatim>\<open>poll\<close> with
  \<^verbatim>\<open>attempts\<close> equal to \<open>n\<close>.
\<close>

lemma pollTaskStatus_after_running:
  assumes "n \<le> 30"
  shows "pollTaskStatus f i (replicate n (TaskStatus ''running'') @ r # rest) =
     run_polls f rest (poll f r ((new_tracker i)\<lparr>attempts := n\<rparr>))"
proof (cases n)
  case 0
  then show ?thesis by (simp add: pollTaskStatus_def new_tracker_def)
next
  case (Suc m)
  then have "0 < n" by simp
  then have "pollTaskStatus f i (replicate n (TaskStatus ''running'') @ r # rest) =
      run_polls f (r # rest) (waiting i n)"
    using assms by (rule pollTaskStatus_running)
  also have "\<dots> = run_polls f rest (poll f r ((waiting i n)\<lparr>timers := []\<rparr>))"
    by (rule run_polls_waiting)
  also have "(waiting i n)\<lparr>timers := []\<rparr> = (new_tracker i)\<lparr>attempts := n\<rparr>"
    by (simp add: waiting_def new_tracker_def)
  finally show ?thesis .
qed

lemma valid_ab: "isValidAudioFile a_mp3" "isValidAudioFile b_mp3"
  by code_simp+

lemma queued_two:
  "addFilesToQueue [a_mp3, b_mp3] empty_queue =
     \<lparr>notifications = [], uploadedFiles = [a_mp3, b_mp3],
      queue_list = Some [createQueueItem a_mp3, createQueueItem b_mp3],
      upload_queue_display = Some ''block''\<rparr>"
  by (simp add: addFilesToQueue_def empty_queue_def add_file_def valid_ab Let_def)

lemma two_submitted_eq:
  "two_submitted =
     \<lparr>page_queue =
        \<lparr>notifications = [(''Starting analysis...'', ''info'', 3000),
                           (''Analysis started for all files!'', ''success'', 3000)],
         uploadedFiles = [a_mp3, b_mp3],
         queue_list = Some [processing_item ''a.mp3'', processing_item ''b.mp3''],
         upload_queue_display = Some ''block''\<rparr>,
      jobs =
        [\<lparr>job_file = ''a.mp3'', slot = Some 0, fetching = True,
          core = new_tracker (processing_item ''a.mp3'')\<rparr>,
         \<lparr>job_file = ''b.mp3'', slot = Some 1, fetching = True,
          core = new_tracker (processing_item ''b.mp3'')\<rparr>]\<rparr>"
  unfolding two_submitted_def queued_two
  by (simp add: startAnalysis_def submit_file_def set_item_def showNotification_def
      pollTaskStatus_def a_mp3_def b_mp3_def)

lemma one_failed_one_completed_eq:
  "one_failed_one_completed =
     \<lparr>page_queue =
        \<lparr>notifications = [(''Starting analysis...'', ''info'', 3000),
                           (''Analysis started for all files!'', ''success'', 3000)],
         uploadedFiles = [a_mp3, b_mp3],
         queue_list = Some [status_item ''fas fa-exclamation-circle'' ''a.mp3'' ''Failed'',
                            status_item ''fas fa-check-circle'' ''b.mp3'' ''Completed''],
         upload_queue_display = Some ''block''\<rparr>,
      jobs =
        [\<lparr>job_file = ''a.mp3'', slot = Some 0, fetching = False,
          core = \<lparr>notifications = [(''Analysis failed for a.mp3'', ''error'', 3000)],
                  attempts = 0,
                  item = status_item ''fas fa-exclamation-circle'' ''a.mp3'' ''Failed'',
                  timers = []\<rparr>\<rparr>,
         \<lparr>job_file = ''b.mp3'', slot = Some 1, fetching = False,
          core = \<lparr>notifications = [(''Analysis completed for b.mp3'', ''success'', 3000)],
                  attempts = 0,
                  item = status_item ''fas fa-check-circle'' ''b.mp3'' ''Completed'',
                  timers = [(2000, ClearQueue)]\<rparr>\<rparr>]\<rparr>"
  unfolding one_failed_one_completed_def two_submitted_eq
  by (simp add: respond_def poll_def set_item_def showNotification_def new_tracker_def Let_def)

lemma respond_failed_queue:
  assumes "k < length (jobs p)" and "fetching (jobs p ! k)" and "slot (jobs p ! k) = Some i"
    and "queue_list (page_queue p) = Some items"
  shows "queue_list (page_queue (respond k (TaskStatus ''failed'') p)) =
     Some (items[i := status_item ''fas fa-exclamation-circle'' (job_file (jobs p ! k)) ''Failed''])"
  using assms by (simp add: respond_def Let_def set_item_def poll_failed)

lemma fire_clear_queue:
  assumes "k < length (jobs p)" and "(2000, ClearQueue) \<in> set (timers (core (jobs p ! k)))"
  shows "queue_list (page_queue (fire_timer k (2000, ClearQueue) p)) =
       map_option (\<lambda>_. []) (queue_list (page_queue p))"
    and "uploadedFiles (page_queue (fire_timer k (2000, ClearQueue) p)) = []"
    and "list_all (\<lambda>j. slot j = None) (jobs (fire_timer k (2000, ClearQueue) p))"
  using assms by (simp_all add: fire_timer_def Let_def clearUploadQueue_def list_all_iff)

text \<open>
  Claim C6, as amended. On a \<^verbatim>\<open>completed\<close> response \<^verbatim>\<open>poll\<close> marks the item completed,
  adds exactly one success notification and sets exactly one timer, the queue clear after
  2000 ms, and no re-poll; on a \<^verbatim>\<open>failed\<close> response it marks the item failed, adds
  exactly one error notification and sets no timer of its own. For a tracker as a whole:
  whenever the response arrives after \<open>n \<le> 30\<close> running responses, and whatever the server
  would have answered afterwards, the tracker ends in that state, with that single
  notification, and never polls again. In the queue, a failed response rewrites the
  tracker's own entry and leaves every entry in place; and when the queue clear that any
  tracker has set fires, every entry leaves the queue, whatever its status, and the stored
  files are dropped.
\<close>

theorem poll_completed_failed:
  "poll f (TaskStatus ''completed'') s =
     s\<lparr>item := status_item ''fas fa-check-circle'' f ''Completed'',
       notifications := notifications s @ [(''Analysis completed for '' @ f, ''success'', 3000)],
       timers := timers s @ [(2000, ClearQueue)]\<rparr> \<and>
   poll f (TaskStatus ''failed'') s =
     s\<lparr>item := status_item ''fas fa-exclamation-circle'' f ''Failed'',
       notifications := notifications s @ [(''Analysis failed for '' @ f, ''error'', 3000)]\<rparr> \<and>
   (n \<le> 30 \<longrightarrow>
      pollTaskStatus f i (replicate n (TaskStatus ''running'') @ TaskStatus ''completed'' # rest) =
        \<lparr>notifications = [(''Analysis completed for '' @ f, ''success'', 3000)],
         attempts = n, item = status_item ''fas fa-check-circle'' f ''Completed'',
         timers = [(2000, ClearQueue)]\<rparr> \<and>
      pollTaskStatus f i (replicate n (TaskStatus ''running'') @ TaskStatus ''failed'' # rest) =
        \<lparr>notifications = [(''Analysis failed for '' @ f, ''error'', 3000)],
         attempts = n, item = status_item ''fas fa-exclamation-circle'' f ''Failed'',
         timers = []\<rparr>) \<and>
   (k < length (jobs p) \<and> fetching (jobs p ! k) \<and> slot (jobs p ! k) = Some m \<and>
    queue_list (page_queue p) = Some items \<longrightarrow>
      queue_list (page_queue (respond k (TaskStatus ''failed'') p)) =
        Some (items[m := status_item ''fas fa-exclamation-circle'' (job_file (jobs p ! k))
                           ''Failed''])) \<and>
   (k < length (jobs p) \<and> (2000, ClearQueue) \<in> set (timers (core (jobs p ! k))) \<longrightarrow>
      queue_list (page_queue (fire_timer k (2000, ClearQueue) p)) =
        map_option (\<lambda>_. []) (queue_list (page_queue p)) \<and>
      uploadedFiles (page_queue (fire_timer k (2000, ClearQueue) p)) = [] \<and>
      list_all (\<lambda>j. slot j = None) (jobs (fire_timer k (2000, ClearQueue) p)))"
proof -
  have "pollTaskStatus f i (replicate n (TaskStatus ''running'') @ TaskStatus ''completed'' # rest) =
        \<lparr>notifications = [(''Analysis completed for '' @ f, ''success'', 3000)],
         attempts = n, item = status_item ''fas fa-check-circle'' f ''Completed'',
         timers = [(2000, ClearQueue)]\<rparr>" if "n \<le> 30"
    using that
    by (simp add: pollTaskStatus_after_running poll_completed new_tracker_def run_polls_stopped)
  moreover
  have "pollTaskStatus f i (replicate n (TaskStatus ''running'') @ TaskStatus ''failed'' # rest) =
        \<lparr>notifications = [(''Analysis failed for '' @ f, ''error'', 3000)],
         attempts = n, item = status_item ''fas fa-exclamation-circle'' f ''Failed'',
         timers = []\<rparr>" if "n \<le> 30"
    using that
    by (simp add: pollTaskStatus_after_running poll_failed new_tracker_def run_polls_stopped)
  moreover note respond_failed_queue [of k p m items] fire_clear_queue [of k p]
  ultimately show ?thesis by (simp only: poll_completed poll_failed) blast
qed

theorem poll_completed_failed_witness:
  "pollTaskStatus ''a.mp3'' (processing_item ''a.mp3'')
     [TaskStatus ''running'', TaskStatus ''running'', TaskStatus ''completed'', TaskStatus ''failed''] =
     \<lparr>notifications = [(''Analysis completed for a.mp3'', ''success'', 3000)],
      attempts = 2, item = status_item ''fas fa-check-circle'' ''a.mp3'' ''Completed'',
      timers = [(2000, ClearQueue)]\<rparr> \<and>
   pollTaskStatus ''a.mp3'' (processing_item ''a.mp3'') [TaskStatus ''failed''] =
     \<lparr>notifications = [(''Analysis failed for a.mp3'', ''error'', 3000)],
      attempts = 0, item = status_item ''fas fa-exclamation-circle'' ''a.mp3'' ''Failed'',
      timers = []\<rparr> \<and>
   queue_list (page_queue (respond 0 (TaskStatus ''failed'') two_submitted)) =
     Some [status_item ''fas fa-exclamation-circle'' ''a.mp3'' ''Failed'',
           processing_item ''b.mp3''] \<and>
   queue_list (page_queue (fire_timer 1 (2000, ClearQueue) one_failed_one_completed)) = Some []"
proof -
  have t: "length (jobs two_submitted) = 2" "fetching (jobs two_submitted ! 0)"
    "slot (jobs two_submitted ! 0) = Some 0" "job_file (jobs two_submitted ! 0) = ''a.mp3''"
    "queue_list (page_queue two_submitted) =
       Some [processing_item ''a.mp3'', processing_item ''b.mp3'']"
    unfolding two_submitted_eq by simp_all
  have o: "length (jobs one_failed_one_completed) = 2"
    "(2000, ClearQueue) \<in> set (timers (core (jobs one_failed_one_completed ! 1)))"
    "queue_list (page_queue one_failed_one_completed) =
       Some [status_item ''fas fa-exclamation-circle'' ''a.mp3'' ''Failed'',
             status_item ''fas fa-check-circle'' ''b.mp3'' ''Completed'']"
    unfolding one_failed_one_completed_eq by simp_all
  show ?thesis
    using poll_completed_failed [of "''a.mp3''" _ 2 "processing_item ''a.mp3''"
        "[TaskStatus ''failed'']" 0 two_submitted 0
        "[processing_item ''a.mp3'', processing_item ''b.mp3'']"]
      poll_completed_failed [of "''a.mp3''" _ 0 "processing_item ''a.mp3''" "[]"
        1 one_failed_one_completed 1
        "[status_item ''fas fa-exclamation-circle'' ''a.mp3'' ''Failed'',
          status_item ''fas fa-check-circle'' ''b.mp3'' ''Completed'']"]
      t o
    by (simp add: numeral_2_eq_2)
qed

text \<open>
  Claim C6 as stated fails where it says that the queue item of a failed tracker is not
  cleared automatically. Two files are queued and submitted; the first task is reported
  failed and the second completed. The failed tracker has set no timer, but the timer of
  the completed one empties the whole queue two seconds later, the failed entry included.
\<close>

theorem poll_completed_failed_counterexample:
  "queue_list (page_queue one_failed_one_completed) =
     Some [status_item ''fas fa-exclamation-circle'' ''a.mp3'' ''Failed'',
           status_item ''fas fa-check-circle'' ''b.mp3'' ''Completed''] \<and>
   timers (core (jobs one_failed_one_completed ! 0)) = [] \<and>
   timers (core (jobs one_failed_one_completed ! 1)) = [(2000, ClearQueue)] \<and>
   queue_list (page_queue (fire_timer 1 (2000, ClearQueue) one_failed_one_completed)) = Some [] \<and>
   uploadedFiles (page_queue (fire_timer 1 (2000, ClearQueue) one_failed_one_completed)) = []"
  unfolding one_failed_one_completed_eq
  by (simp add: fire_timer_def clearUploadQueue_def Let_def)

text \<open>
  Claim C3, as amended. On a \<^verbatim>\<open>running\<close> response with fewer than 30 attempts counted,
  \<^verbatim>\<open>poll\<close> increments the count and sets exactly one re-poll timer of 1000 ms, touching
  nothing else. After \<open>n\<close> consecutive \<^verbatim>\<open>running\<close> responses, \<open>1 \<le> n \<le> 30\<close>, the
  tracker has counted \<open>n\<close> attempts and is still polling. The 31st consecutive
  \<^verbatim>\<open>running\<close> response finds the count at 30: the item shows the timeout, no timer is
  set and no later response is ever fetched.
\<close>

theorem poll_running_budget:
  "(attempts s < 30 \<longrightarrow>
      poll f (TaskStatus ''running'') s =
        s\<lparr>attempts := attempts s + 1, timers := timers s @ [(1000, Poll)]\<rparr>) \<and>
   (0 < n \<and> n \<le> 30 \<longrightarrow>
      pollTaskStatus f i (replicate n (TaskStatus ''running'')) =
        \<lparr>notifications = [], attempts = n, item = i, timers = [(1000, Poll)]\<rparr>) \<and>
   pollTaskStatus f i (replicate 31 (TaskStatus ''running'') @ rest) =
     \<lparr>notifications = [], attempts = 30, item = status_item ''fas fa-clock'' f ''Timeout'',
      timers = []\<rparr>"
proof -
  have a: "pollTaskStatus f i (replicate n (TaskStatus ''running'')) =
        \<lparr>notifications = [], attempts = n, item = i, timers = [(1000, Poll)]\<rparr>"
    if "0 < n" "n \<le> 30"
    using pollTaskStatus_running [OF that, of f i "[]"] by (simp add: waiting_def)
  have "replicate 31 (TaskStatus ''running'') = replicate (30 + 1) (TaskStatus ''running'')"
    by simp
  also have "\<dots> = replicate 30 (TaskStatus ''running'') @ replicate 1 (TaskStatus ''running'')"
    by (rule replicate_add)
  finally have "replicate 31 (TaskStatus ''running'') @ rest =
      replicate 30 (TaskStatus ''running'') @ TaskStatus ''running'' # rest"
    by simp
  then have "pollTaskStatus f i (replicate 31 (TaskStatus ''running'') @ rest) =
      run_polls f rest (poll f (TaskStatus ''running'') ((new_tracker i)\<lparr>attempts := 30\<rparr>))"
    by (simp only: pollTaskStatus_after_running [of 30, simplified])
  then have b: "pollTaskStatus f i (replicate 31 (TaskStatus ''running'') @ rest) =
     \<lparr>notifications = [], attempts = 30, item = status_item ''fas fa-clock'' f ''Timeout'',
      timers = []\<rparr>"
    by (simp add: poll_running_exhausted new_tracker_def run_polls_stopped)
  show ?thesis using a b by (simp add: poll_running)
qed


theorem poll_running_budget_witness:
  "poll ''a.mp3'' (TaskStatus ''running'') (new_tracker (processing_item ''a.mp3'')) =
     \<lparr>notifications = [], attempts = 1, item = processing_item ''a.mp3'',
      timers = [(1000, Poll)]\<rparr> \<and>
   pollTaskStatus ''a.mp3'' (processing_item ''a.mp3'') (replicate 30 (TaskStatus ''running'')) =
     \<lparr>notifications = [], attempts = 30, item = processing_item ''a.mp3'',
      timers = [(1000, Poll)]\<rparr> \<and>
   pollTaskStatus ''a.mp3'' (processing_item ''a.mp3'')
       (replicate 31 (TaskStatus ''running'') @ [TaskStatus ''completed'']) =
     \<lparr>notifications = [], attempts = 30,
      item = status_item ''fas fa-clock'' ''a.mp3'' ''Timeout'', timers = []\<rparr>"
  using poll_running_budget [of "new_tracker (processing_item ''a.mp3'')" "''a.mp3''" 30
      "processing_item ''a.mp3''" "[TaskStatus ''completed'']"]
  by (simp add: new_tracker_def)

text \<open>
  Claim C3 as stated fails twice. A \<^verbatim>\<open>processing\<close> response at attempt 0 is not
  re-polled: the item shows the timeout at once. And after 30 consecutive \<^verbatim>\<open>running\<close>
  responses the tracker has not timed out: its item is unchanged and the 31st poll is
  pending.
\<close>

theorem poll_running_budget_counterexample:
  "poll ''a.mp3'' (TaskStatus ''processing'') (new_tracker (processing_item ''a.mp3'')) =
     \<lparr>notifications = [], attempts = 0,
      item = status_item ''fas fa-clock'' ''a.mp3'' ''Timeout'', timers = []\<rparr> \<and>
   \<not> polling (poll ''a.mp3'' (TaskStatus ''processing'') (new_tracker (processing_item ''a.mp3''))) \<and>
   polling (pollTaskStatus ''a.mp3'' (processing_item ''a.mp3'')
              (replicate 30 (TaskStatus ''running''))) \<and>
   item (pollTaskStatus ''a.mp3'' (processing_item ''a.mp3'')
              (replicate 30 (TaskStatus ''running''))) = processing_item ''a.mp3''"
proof -
  have p: "poll ''a.mp3'' (TaskStatus ''processing'') (new_tracker (processing_item ''a.mp3'')) =
     \<lparr>notifications = [], attempts = 0,
      item = status_item ''fas fa-clock'' ''a.mp3'' ''Timeout'', timers = []\<rparr>"
    by (simp add: poll_def new_tracker_def)
  have r: "pollTaskStatus ''a.mp3'' (processing_item ''a.mp3'')
      (replicate 30 (TaskStatus ''running'') @ []) = waiting (processing_item ''a.mp3'') 30"
    by (simp only: pollTaskStatus_running [of 30, simplified] run_polls.simps(1))
  show ?thesis using r by (simp add: p polling_def waiting_def)
qed

text \<open>
  Claim C4 fails on the code. A status response that is not \<^verbatim>\<open>ok\<close> ends the polling with
  the item still showing the spinner, and without any notification; a thrown
  \<^verbatim>\<open>fetch\<close> or parse error marks the item with the error status but shows no
  notification either.
\<close>

theorem poll_failure_silent:
  "pollTaskStatus ''a.mp3'' (processing_item ''a.mp3'') [NotOk, TaskStatus ''completed''] =
     \<lparr>notifications = [], attempts = 0, item = processing_item ''a.mp3'', timers = []\<rparr> \<and>
   pollTaskStatus ''a.mp3'' (processing_item ''a.mp3'') [TaskStatus ''running'', Threw] =
     \<lparr>notifications = [], attempts = 1,
      item = status_item ''fas fa-exclamation-circle'' ''a.mp3'' ''Error'', timers = []\<rparr>"
  by (simp add: pollTaskStatus_def poll_def new_tracker_def run_polls.simps(2) maxAttempts_def)



section \<open>Properties of the audio playback\<close>

lemma first_call:
  "playAudio 3 idle_player =
     \<lparr>notifications = [],
      elements = [\<lparr>source_id = 3, paused = False, currentTime = 0, duration = None,
                  readyState = 0, media_error = None, play_pending = True\<rparr>],
      currentAudio = Some 0, currentAnalysisId = Some 3,
      playButtons =
        [\<lparr>onclick_id = 3, playing = True, icon_class = ''fas fa-pause'', title = ''Pause audio''\<rparr>,
         \<lparr>onclick_id = 5, playing = False, icon_class = ''fas fa-play'', title = ''Play audio''\<rparr>],
      player_shown = True,
      effects = [ButtonsUpdated 3 ''playing'', Created 0 3, PlayCalled 0],
      load_timeouts = [0], rejected_plays = []\<rparr>"
  by (simp add: playAudio_def idle_player_def Let_def updatePlayButtons_def reset_button_def
      showGlobalAudioPlayer_def media_play_def update_element_def)

lemma second_call:
  "switched =
     \<lparr>notifications = [],
      elements = [\<lparr>source_id = 3, paused = True, currentTime = 0, duration = None,
                  readyState = 0, media_error = None, play_pending = False\<rparr>,
                 \<lparr>source_id = 5, paused = False, currentTime = 0, duration = None,
                  readyState = 0, media_error = None, play_pending = True\<rparr>],
      currentAudio = Some 1, currentAnalysisId = Some 5,
      playButtons =
        [\<lparr>onclick_id = 3, playing = False, icon_class = ''fas fa-play'', title = ''Play audio''\<rparr>,
         \<lparr>onclick_id = 5, playing = True, icon_class = ''fas fa-pause'', title = ''Pause audio''\<rparr>],
      player_shown = True,
      effects = [ButtonsUpdated 3 ''playing'', Created 0 3, PlayCalled 0,
                 Paused 0, ButtonsUpdated 5 ''playing'', Created 1 5, PlayCalled 1],
      load_timeouts = [0, 1], rejected_plays = [(0, abort_message)]\<rparr>"
  unfolding switched_def first_call
  by (simp add: playAudio_def Let_def updatePlayButtons_def reset_button_def
      showGlobalAudioPlayer_def media_play_def media_pause_def update_element_def element_at_def)

lemma after_rejection:
  "run_rejected switched =
     \<lparr>notifications = [(''Error playing audio: '' @ abort_message, ''error'', 3000)],
      elements = [\<lparr>source_id = 3, paused = True, currentTime = 0, duration = None,
                  readyState = 0, media_error = None, play_pending = False\<rparr>,
                 \<lparr>source_id = 5, paused = False, currentTime = 0, duration = None,
                  readyState = 0, media_error = None, play_pending = True\<rparr>],
      currentAudio = None, currentAnalysisId = None,
      playButtons =
        [\<lparr>onclick_id = 3, playing = False, icon_class = ''fas fa-play'', title = ''Play audio''\<rparr>,
         \<lparr>onclick_id = 5, playing = True, icon_class = ''fas fa-pause'', title = ''Pause audio''\<rparr>],
      player_shown = False,
      effects = [ButtonsUpdated 3 ''playing'', Created 0 3, PlayCalled 0,
                 Paused 0, ButtonsUpdated 5 ''playing'', Created 1 5, PlayCalled 1,
                 ButtonsUpdated 3 ''stopped''],
      load_timeouts = [1], rejected_plays = []\<rparr>"
  unfolding second_call
  by (simp add: run_rejected_def on_play_rejected_def element_at_def close_session_def
      hideGlobalAudioPlayer_def updatePlayButtons_def reset_button_def showNotification_def Let_def)

lemma third_call:
  "elements (playAudio 7 (run_rejected switched)) =
     [\<lparr>source_id = 3, paused = True, currentTime = 0, duration = None,
       readyState = 0, media_error = None, play_pending = False\<rparr>,
      \<lparr>source_id = 5, paused = False, currentTime = 0, duration = None,
       readyState = 0, media_error = None, play_pending = True\<rparr>,
      \<lparr>source_id = 7, paused = False, currentTime = 0, duration = None,
       readyState = 0, media_error = None, play_pending = True\<rparr>]"
  unfolding after_rejection
  by (simp add: playAudio_def Let_def updatePlayButtons_def reset_button_def
      showGlobalAudioPlayer_def media_play_def update_element_def)

text \<open>
  Claim C1 fails on the code. \<^verbatim>\<open>playAudio(3)\<close> is followed by \<^verbatim>\<open>playAudio(5)\<close> before
  element 3 has started to play. When the second call returns, element 5 is the current
  session and element 3 is paused; but pausing element 3 has rejected the promise of its
  \<^verbatim>\<open>play()\<close>. The \<^verbatim>\<open>catch\<close> callback of the first call then runs: it clears
  \<^verbatim>\<open>currentAudio\<close> and \<^verbatim>\<open>currentAnalysisId\<close> and hides the player, while element 5 goes on
  playing with no session that refers to it. A third call, \<^verbatim>\<open>playAudio(7)\<close>, finds nothing
  to pause, and two elements play at once.
\<close>

theorem playAudio_stale_callback:
  "currentAudio (playAudio 5 (playAudio 3 idle_player)) = Some 1 \<and>
   rejected_plays (playAudio 5 (playAudio 3 idle_player)) = [(0, abort_message)] \<and>
   currentAudio (run_rejected (playAudio 5 (playAudio 3 idle_player))) = None \<and>
   currentAnalysisId (run_rejected (playAudio 5 (playAudio 3 idle_player))) = None \<and>
   \<not> player_shown (run_rejected (playAudio 5 (playAudio 3 idle_player))) \<and>
   sounding (run_rejected (playAudio 5 (playAudio 3 idle_player))) = [1] \<and>
   sounding (playAudio 7 (run_rejected (playAudio 5 (playAudio 3 idle_player)))) = [1, 2]"
proof -
  have "sounding (run_rejected switched) = [1]"
    unfolding after_rejection by (simp add: sounding_def upt_rec)
  moreover have "sounding (playAudio 7 (run_rejected switched)) = [1, 2]"
    unfolding sounding_def third_call by (simp add: upt_rec)
  moreover have "currentAudio switched = Some 1" "rejected_plays switched = [(0, abort_message)]"
    unfolding second_call by simp_all
  moreover have "currentAudio (run_rejected switched) = None"
    "currentAnalysisId (run_rejected switched) = None" "\<not> player_shown (run_rejected switched)"
    unfolding after_rejection by simp_all
  ultimately show ?thesis unfolding switched_def by blast
qed

lemma seekAudio_known:
  assumes "currentAudio s = Some h" and "h < length (elements s)"
    and "duration (elements s ! h) = Some d" and "d \<noteq> 0"
  shows "seekAudio p s =
     s\<lparr>elements := (elements s)[h := (elements s ! h)\<lparr>currentTime := seek_position (p / 100 * d) d\<rparr>],
       effects := effects s @ [TimeAssigned h (p / 100 * d)]\<rparr>"
  using assms by (simp add: seekAudio_def element_at_def update_element_def Let_def)

text \<open>Clamping the position after the mapping is clamping the fraction before it.\<close>

lemma seek_position_clamped:
  assumes "0 < d"
  shows "seek_position (p / 100 * d) d = clamped_fraction p * d"
proof -
  have "min (p / 100 * d) d = min (p / 100) 1 * d"
    using assms by (simp add: min_def)
  moreover have "max 0 (min (p / 100) 1 * d) = max 0 (min (p / 100) 1) * d"
    using assms by (simp add: max_def zero_le_mult_iff mult_le_0_iff)
  ultimately show ?thesis by (simp add: seek_position_def clamped_fraction_def)
qed

lemma clamped_fraction_range: "0 \<le> clamped_fraction p \<and> clamped_fraction p \<le> 1"
  by (simp add: clamped_fraction_def)

text \<open>
  Claim C8. A seek request names a percentage \<open>p\<close> of the duration, that is the fraction
  \<open>p / 100\<close>. With a current element whose duration \<open>d > 0\<close> is known, the position after
  \<^verbatim>\<open>seekAudio(p)\<close> is the fraction clamped to \<open>[0, 1]\<close>, times \<open>d\<close>, so it lies in
  \<open>[0, d]\<close> for every \<open>p\<close>; nothing else changes. The script assigns the unclamped
  \<open>p / 100 * d\<close>, and the element clamps the position it seeks to, which comes to the same
  position. Without a current element, or while its duration is not known yet (or is 0),
  \<^verbatim>\<open>seekAudio\<close> changes nothing.
\<close>

theorem seekAudio_position:
  "(currentAudio s = Some h \<and> h < length (elements s) \<and> duration (elements s ! h) = Some d \<and>
    0 < d \<longrightarrow>
      seekAudio p s =
        s\<lparr>elements := (elements s)[h := (elements s ! h)\<lparr>currentTime := clamped_fraction p * d\<rparr>],
          effects := effects s @ [TimeAssigned h (p / 100 * d)]\<rparr> \<and>
      currentTime (elements (seekAudio p s) ! h) = clamped_fraction p * d \<and>
      0 \<le> clamped_fraction p \<and> clamped_fraction p \<le> 1 \<and>
      0 \<le> currentTime (elements (seekAudio p s) ! h) \<and>
      currentTime (elements (seekAudio p s) ! h) \<le> d) \<and>
   (currentAudio s = None \<longrightarrow> seekAudio p s = s) \<and>
   (currentAudio s = Some h \<and> h < length (elements s) \<and>
    (duration (elements s ! h) = None \<or> duration (elements s ! h) = Some 0)
      \<longrightarrow> seekAudio p s = s)"
proof -
  have known: "seekAudio p s =
        s\<lparr>elements := (elements s)[h := (elements s ! h)\<lparr>currentTime := clamped_fraction p * d\<rparr>],
          effects := effects s @ [TimeAssigned h (p / 100 * d)]\<rparr>"
    if "currentAudio s = Some h" "h < length (elements s)"
      "duration (elements s ! h) = Some d" "0 < d"
  proof -
    from that(4) have "d \<noteq> 0" by simp
    from seekAudio_known [OF that(1) that(2) that(3) this, of p] show ?thesis
      unfolding seek_position_clamped [OF that(4)] .
  qed
  have le: "clamped_fraction p * d \<le> d" if "0 < d"
  proof -
    have "clamped_fraction p * d \<le> 1 * d"
      using that clamped_fraction_range [of p] by (intro mult_right_mono) simp_all
    then show ?thesis by simp
  qed
  have ge: "0 \<le> clamped_fraction p * d" if "0 < d"
    using that clamped_fraction_range [of p] by simp
  have none: "seekAudio p s = s" if "currentAudio s = None"
    using that by (simp add: seekAudio_def)
  have unknown: "seekAudio p s = s"
    if "currentAudio s = Some h" "h < length (elements s)"
      "duration (elements s ! h) = None \<or> duration (elements s ! h) = Some 0"
    using that by (auto simp: seekAudio_def element_at_def)
  show ?thesis
    using known le ge none unknown clamped_fraction_range [of p] by simp
qed

theorem seekAudio_position_witness:
  "currentTime (elements (seekAudio 25 loaded_player) ! 0) = 50 \<and>
   currentTime (elements (seekAudio 150 loaded_player) ! 0) = 200 \<and>
   currentTime (elements (seekAudio (- 50) loaded_player) ! 0) = 0 \<and>
   seekAudio 25 loading_player = loading_player"
  using seekAudio_position [of loaded_player 0 200 25] seekAudio_position [of loaded_player 0 200 150]
    seekAudio_position [of loaded_player 0 200 "- 50"] seekAudio_position [of loading_player 0 _ 25]
  by (simp add: loaded_player_def loading_player_def clamped_fraction_def)

end
